theory Spec2Isabelle
  imports Complex_Main "HOL-Library.Word"
begin

section \<open>deno\_winit: the WinitWindow bridge of \<open>mod.ts\<close>\<close>

text \<open>
  A shallow embedding of \<open>src/mod.ts\<close>. The class \<open>WinitWindow\<close> is a record, its
  constructor and \<open>spawn()\<close> are functions that return an error as a value, and the
  three FFI callbacks are functions on the state that \<open>spawn()\<close> closes over. Every call
  that leaves the module (Deno, WebGPU, the user's functions, the native library) is a
  field of the record \<open>host\<close> or of the window, and is written to a trace when it is
  made.
\<close>

subsection \<open>JavaScript values\<close>

text \<open>
  A JavaScript string is a sequence of UTF-16 code units; a \<open>Uint8Array\<close> is a sequence
  of bytes. A \<open>number\<close> is a double: a finite value (the rational it denotes, \<open>-0\<close>
  identified with \<open>0\<close>), an infinity or NaN. No arithmetic is done on numbers by the
  module; they are tested for truthiness and passed on.
\<close>

type_synonym js_string = "16 word list"
type_synonym bytes = "8 word list"

datatype number = Finite rat | PosInfinity | NegInfinity | NaN

text \<open>A string literal of the source, whose characters are all ASCII.\<close>

definition js :: "string \<Rightarrow> js_string" where
  "js s = map (\<lambda>c. of_nat (of_char c)) s"

text \<open>What \<open>if (v)\<close> tests: \<open>0\<close> and NaN are falsy, the empty string is falsy.\<close>

fun truthy_number :: "number \<Rightarrow> bool" where
  "truthy_number (Finite r) = (r \<noteq> 0)"
| "truthy_number PosInfinity = True"
| "truthy_number NegInfinity = True"
| "truthy_number NaN = False"

definition truthy_string :: "'a list \<Rightarrow> bool" where
  "truthy_string s = (s \<noteq> [])"

text \<open>A \<open>u32\<close> argument of a callback arrives in JavaScript as a number.\<close>

definition number_of_u32 :: "32 word \<Rightarrow> number" where
  "number_of_u32 w = Finite (of_nat (unat w))"

text \<open>\<open>new Error(msg)\<close>, thrown or the reason of a rejected promise.\<close>

datatype error = Error string

datatype 'a promise = Resolved 'a | Rejected error

subsection \<open>Handles, surfaces and contexts\<close>

datatype system = Win32 | Cocoa | Wayland | X11

text \<open>\<open>Deno.PointerValue\<close>: \<open>null\<close> or a pointer object.\<close>

type_synonym pointer_value = "nat option"

type_synonym adapter = nat
type_synonym device = nat

text \<open>The object \<open>new Deno.UnsafeWindowSurface(system, winHandle, dispHandle)\<close>.\<close>

record window_surface =
  surf_system :: system
  surf_window :: pointer_value
  surf_display :: pointer_value

text \<open>The argument of \<open>context.configure\<close>.\<close>

record configuration =
  cfg_device :: device
  cfg_format :: string
  cfg_width :: number
  cfg_height :: number

text \<open>The \<open>GPUCanvasContext\<close> of a surface, with the configuration it was last given.\<close>

record canvas_context =
  ctx_surface :: window_surface
  ctx_configured :: "configuration option"

subsection \<open>The native library and the host\<close>

text \<open>The callbacks registered with \<open>spawn_window\<close>, with their declared parameters.\<close>

datatype event =
    OnSetup pointer_value pointer_value "32 word" "32 word"
  | OnDraw
  | OnResize "32 word" "32 word"

text \<open>
  The loaded library, as the opaque service its one symbol \<open>spawn_window\<close> is: given the
  marshalled title, icon, width and height, it runs its event loop, which invokes the
  three callbacks one at a time, in some order.
\<close>

type_synonym dylib = "bytes \<Rightarrow> bytes option \<Rightarrow> number \<Rightarrow> number \<Rightarrow> event list"

text \<open>
  Everything the module calls and does not define. A call that can throw returns
  \<open>Some e\<close> when it throws \<open>e\<close>, or \<open>Inl e\<close> when it has a result otherwise.
\<close>

record host =
  build_os :: string
  env_get :: "string \<Rightarrow> string option"
  deno_dlopen :: "string \<Rightarrow> error + dylib"
  plug_dlopen :: "string \<Rightarrow> string \<Rightarrow> dylib promise"
  requestAdapter :: "error + adapter option"
  requestDevice :: "adapter \<Rightarrow> error + device option"
  new_UnsafeWindowSurface :: "system \<Rightarrow> pointer_value \<Rightarrow> pointer_value \<Rightarrow> error option"
  getContext :: "window_surface \<Rightarrow> error option"
  configure :: "window_surface \<Rightarrow> configuration \<Rightarrow> error option"
  present :: "window_surface \<Rightarrow> error option"

subsection \<open>The class \<open>WinitWindow\<close>\<close>

record winit_window =
  dylibPromise :: "dylib promise option"
  system :: "system option"
  windowTitle :: js_string
  windowIconPath :: "js_string option"
  width :: number
  height :: number
  presentationFormat :: string
  setupFunction :: "device \<Rightarrow> canvas_context \<Rightarrow> error option"
  drawFunction :: "device \<Rightarrow> canvas_context \<Rightarrow> error option"
  resizeFunction :: "number \<Rightarrow> number \<Rightarrow> error option"

text \<open>The argument object of the constructor; \<open>None\<close> is an omitted property.\<close>

record options =
  opt_forceX11 :: "bool option"
  opt_windowTitle :: "js_string option"
  opt_windowIconPath :: "js_string option"
  opt_width :: "number option"
  opt_height :: "number option"
  opt_presentationFormat :: "string option"
  opt_setupFunction :: "(device \<Rightarrow> canvas_context \<Rightarrow> error option) option"
  opt_drawFunction :: "(device \<Rightarrow> canvas_context \<Rightarrow> error option) option"
  opt_resizeFunction :: "(number \<Rightarrow> number \<Rightarrow> error option) option"

definition VERSION :: string where
  "VERSION = ''0.3.0-dev''"

text \<open>The field initialisers of the class (lines 36 to 50).\<close>

definition field_initialisers :: winit_window where
  "field_initialisers =
     \<lparr> dylibPromise = None,
       system = None,
       windowTitle = js ''Deno + winit'',
       windowIconPath = None,
       width = Finite 512,
       height = Finite 512,
       presentationFormat = ''bgra8unorm'',
       setupFunction = (\<lambda>_ _. None),
       drawFunction = (\<lambda>_ _. None),
       resizeFunction = (\<lambda>_ _. None) \<rparr>"

text \<open>\<open>dlopen_Local\<close> (lines 280 to 300).\<close>

definition dlopen_Local :: "host \<Rightarrow> error + dylib promise" where
  "dlopen_Local h =
     (case (if build_os h = ''linux'' then Inr ''libdeno_winit.so''
            else if build_os h = ''windows'' then Inr ''deno_winit.dll''
            else if build_os h = ''darwin'' then Inr ''libdeno_winit.dylib''
            else Inl (Error ''Unsupported OS.'')) of
        Inl e \<Rightarrow> Inl e
      | Inr libFileName \<Rightarrow>
          (case deno_dlopen h (''./target/release/'' @ libFileName) of
             Inl e \<Rightarrow> Inl e
           | Inr lib \<Rightarrow> Inr (Resolved lib)))"

text \<open>
  \<open>if (v) { this.f = v; }\<close>: the assignment is made when the property is present and
  truthy.
\<close>

definition assign_if ::
  "('a \<Rightarrow> bool) \<Rightarrow> 'a option \<Rightarrow> ('a \<Rightarrow> winit_window \<Rightarrow> winit_window) \<Rightarrow> winit_window
     \<Rightarrow> winit_window" where
  "assign_if truthy v assign t =
     (case v of None \<Rightarrow> t | Some x \<Rightarrow> if truthy x then assign x t else t)"

text \<open>The assignments of lines 85 to 115. A function is always truthy.\<close>

definition assign_options :: "options \<Rightarrow> winit_window \<Rightarrow> winit_window" where
  "assign_options a t0 =
     (let t1 = assign_if truthy_string (opt_windowTitle a) (\<lambda>v t. t\<lparr>windowTitle := v\<rparr>) t0;
          t2 = assign_if truthy_string (opt_windowIconPath a)
                 (\<lambda>v t. t\<lparr>windowIconPath := Some v\<rparr>) t1;
          t3 = assign_if truthy_number (opt_width a) (\<lambda>v t. t\<lparr>width := v\<rparr>) t2;
          t4 = assign_if truthy_number (opt_height a) (\<lambda>v t. t\<lparr>height := v\<rparr>) t3;
          t5 = assign_if truthy_string (opt_presentationFormat a)
                 (\<lambda>v t. t\<lparr>presentationFormat := v\<rparr>) t4;
          t6 = assign_if (\<lambda>_. True) (opt_setupFunction a) (\<lambda>f t. t\<lparr>setupFunction := f\<rparr>) t5;
          t7 = assign_if (\<lambda>_. True) (opt_drawFunction a) (\<lambda>f t. t\<lparr>drawFunction := f\<rparr>) t6
      in assign_if (\<lambda>_. True) (opt_resizeFunction a) (\<lambda>f t. t\<lparr>resizeFunction := f\<rparr>) t7)"

text \<open>The \<open>switch (Deno.build.os)\<close> of lines 117 to 133.\<close>

definition resolve_system :: "host \<Rightarrow> bool \<Rightarrow> winit_window \<Rightarrow> error + winit_window" where
  "resolve_system h forceX11 t =
     (if build_os h = ''linux'' then
        (if forceX11 then Inr (t\<lparr>system := Some X11\<rparr>)
         else Inr (t\<lparr>system := Some Wayland\<rparr>))
      else if build_os h = ''windows'' then Inr (t\<lparr>system := Some Win32\<rparr>)
      else if build_os h = ''darwin'' then Inr (t\<lparr>system := Some Cocoa\<rparr>)
      else Inl (Error ''Unsupported OS.''))"

text \<open>
  The constructor (lines 64 to 158): the assignments, the switch, then the library is
  opened, from \<open>./target/release\<close> when the environment variable is \<open>1\<close> and through
  \<open>@denosaurs/plug\<close> from the release URL otherwise.
\<close>

definition "constructor" :: "host \<Rightarrow> options \<Rightarrow> error + winit_window" where
  "constructor h a =
     (let forceX11 = (case opt_forceX11 a of None \<Rightarrow> False | Some b \<Rightarrow> b)
      in case resolve_system h forceX11 (assign_options a field_initialisers) of
           Inl e \<Rightarrow> Inl e
         | Inr t \<Rightarrow>
             (if env_get h ''DENO_WINIT_LOCAL_LIB'' = Some ''1'' then
                (case dlopen_Local h of
                   Inl e \<Rightarrow> Inl e
                 | Inr p \<Rightarrow> Inr (t\<lparr>dylibPromise := Some p\<rparr>))
              else
                Inr (t\<lparr>dylibPromise := Some (plug_dlopen h ''deno_winit''
                  (''https://github.com/fazil47/deno_winit/releases/download/v'' @ VERSION @ ''/''))\<rparr>)))"


subsection \<open>\<open>asCString\<close> and the platform's \<open>TextEncoder\<close>\<close>

text \<open>
  \<open>TextEncoder.encode\<close> is the platform's: it reads the string as Unicode scalar
  values, a surrogate pair as one code point and an unpaired surrogate as U+FFFD, and
  writes each as its UTF-8 bytes.
\<close>

definition is_high_surrogate :: "16 word \<Rightarrow> bool" where
  "is_high_surrogate c = (0xD800 \<le> unat c \<and> unat c \<le> 0xDBFF)"

definition is_low_surrogate :: "16 word \<Rightarrow> bool" where
  "is_low_surrogate c = (0xDC00 \<le> unat c \<and> unat c \<le> 0xDFFF)"

text \<open>The scalar values of a string, as the encoder reads them.\<close>

fun scalar_values :: "js_string \<Rightarrow> nat list" where
  "scalar_values [] = []"
| "scalar_values [c] =
     [if is_high_surrogate c \<or> is_low_surrogate c then 0xFFFD else unat c]"
| "scalar_values (c # d # r) =
     (if is_high_surrogate c \<and> is_low_surrogate d then
        (0x10000 + (unat c - 0xD800) * 0x400 + (unat d - 0xDC00)) # scalar_values r
      else
        (if is_high_surrogate c \<or> is_low_surrogate c then 0xFFFD else unat c)
          # scalar_values (d # r))"

text \<open>An element of a \<open>Uint8Array\<close>.\<close>

definition byte :: "nat \<Rightarrow> 8 word" where
  "byte n = of_nat n"

definition utf8_bytes :: "nat \<Rightarrow> bytes" where
  "utf8_bytes cp =
     (if cp < 0x80 then [byte cp]
      else if cp < 0x800 then
        [byte (0xC0 + cp div 0x40), byte (0x80 + cp mod 0x40)]
      else if cp < 0x10000 then
        [byte (0xE0 + cp div 0x1000), byte (0x80 + cp div 0x40 mod 0x40),
         byte (0x80 + cp mod 0x40)]
      else
        [byte (0xF0 + cp div 0x40000), byte (0x80 + cp div 0x1000 mod 0x40),
         byte (0x80 + cp div 0x40 mod 0x40), byte (0x80 + cp mod 0x40)])"

definition TextEncoder_encode :: "js_string \<Rightarrow> bytes" where
  "TextEncoder_encode s = concat (map utf8_bytes (scalar_values s))"

text \<open>\<open>asCString\<close> (lines 307 to 310) encodes the template literal \<open>`${str}\0`\<close>.\<close>

definition asCString :: "js_string \<Rightarrow> bytes" where
  "asCString str = TextEncoder_encode (str @ [0])"

text \<open>
  Decoding as UTF-8, the reference against which the marshalling is read back: the
  decoder accepts exactly the well-formed byte sequences (no overlong form, no
  surrogate, nothing above U+10FFFF, no truncated sequence) and fails on any other.
  The state is the code point so far, the number of continuation bytes still needed and
  the bounds of the next byte.
\<close>

fun utf8_decode_from :: "nat \<Rightarrow> nat \<Rightarrow> nat \<Rightarrow> nat \<Rightarrow> bytes \<Rightarrow> nat list option" where
  "utf8_decode_from cp needed lo hi [] = (if needed = 0 then Some [] else None)"
| "utf8_decode_from cp needed lo hi (b # bs) =
     (if needed = 0 then
        (if unat b \<le> 0x7F then
           map_option (Cons (unat b)) (utf8_decode_from 0 0 0x80 0xBF bs)
         else if 0xC2 \<le> unat b \<and> unat b \<le> 0xDF then
           utf8_decode_from (unat b - 0xC0) 1 0x80 0xBF bs
         else if 0xE0 \<le> unat b \<and> unat b \<le> 0xEF then
           utf8_decode_from (unat b - 0xE0) 2
             (if unat b = 0xE0 then 0xA0 else 0x80) (if unat b = 0xED then 0x9F else 0xBF) bs
         else if 0xF0 \<le> unat b \<and> unat b \<le> 0xF4 then
           utf8_decode_from (unat b - 0xF0) 3
             (if unat b = 0xF0 then 0x90 else 0x80) (if unat b = 0xF4 then 0x8F else 0xBF) bs
         else None)
      else if unat b < lo \<or> hi < unat b then None
      else if needed = 1 then
        map_option (Cons (cp * 0x40 + (unat b - 0x80))) (utf8_decode_from 0 0 0x80 0xBF bs)
      else
        utf8_decode_from (cp * 0x40 + (unat b - 0x80)) (needed - 1) 0x80 0xBF bs)"

definition utf16_units :: "nat \<Rightarrow> js_string" where
  "utf16_units cp =
     (if cp < 0x10000 then [of_nat cp]
      else [of_nat (0xD800 + (cp - 0x10000) div 0x400),
            of_nat (0xDC00 + (cp - 0x10000) mod 0x400)])"

definition utf8_decode :: "bytes \<Rightarrow> js_string option" where
  "utf8_decode bs =
     map_option (\<lambda>cps. concat (map utf16_units cps)) (utf8_decode_from 0 0 0x80 0xBF bs)"

text \<open>A string is well formed when every surrogate in it is half of a pair.\<close>

fun well_formed :: "js_string \<Rightarrow> bool" where
  "well_formed [] = True"
| "well_formed [c] = (\<not> is_high_surrogate c \<and> \<not> is_low_surrogate c)"
| "well_formed (c # d # r) =
     (if is_high_surrogate c then is_low_surrogate d \<and> well_formed r
      else \<not> is_low_surrogate c \<and> well_formed (d # r))"

definition scalar :: "nat \<Rightarrow> bool" where
  "scalar cp = (cp < 0x110000 \<and> \<not> (0xD800 \<le> cp \<and> cp \<le> 0xDFFF))"

subsection \<open>The state \<open>spawn()\<close> closes over, and what it does\<close>

text \<open>Every call made outside the module, in the order it is made.\<close>

datatype action =
    ConsoleError string
  | RequestAdapter
  | RequestDevice adapter
  | NewSurface system pointer_value pointer_value
  | GetContext window_surface
  | Configure window_surface configuration
  | UserSetup device canvas_context
  | UserDraw device canvas_context
  | UserResize number number
  | Present window_surface
  | SpawnWindow bytes "bytes option" number number

text \<open>
  The window object and the four \<open>let\<close> variables of \<open>spawn()\<close> (lines 182 to 185),
  with the trace.
\<close>

record bridge =
  this :: winit_window
  surface_var :: "window_surface option"
  context_var :: "canvas_context option"
  windowHandle :: pointer_value
  displayHandle :: pointer_value
  trace :: "action list"

definition does :: "action \<Rightarrow> bridge \<Rightarrow> bridge" where
  "does a s = s\<lparr>trace := trace s @ [a]\<rparr>"

text \<open>
  A callback returns \<open>(None, s)\<close> when it returns, and \<open>(Some e, s)\<close> when \<open>e\<close> leaves
  it as an exception; \<open>s\<close> is the state it leaves behind.
\<close>

text \<open>\<open>setupSurfaceAndContext\<close> (lines 187 to 210).\<close>

definition setupSurfaceAndContext ::
  "host \<Rightarrow> device \<Rightarrow> pointer_value \<Rightarrow> pointer_value \<Rightarrow> number \<Rightarrow> number \<Rightarrow> bridge
     \<Rightarrow> error option \<times> bridge" where
  "setupSurfaceAndContext h device winHandle dispHandle w_arg h_arg s =
     (case system (this s) of
        None \<Rightarrow> (None, does (ConsoleError ''System not supported.'') s)
      | Some sys \<Rightarrow>
          (let s1 = does (NewSurface sys winHandle dispHandle) s in
           case new_UnsafeWindowSurface h sys winHandle dispHandle of
             Some e \<Rightarrow> (Some e, s1)
           | None \<Rightarrow>
               (let surf = \<lparr> surf_system = sys, surf_window = winHandle,
                             surf_display = dispHandle \<rparr>;
                    s2 = does (GetContext surf) (s1\<lparr>surface_var := Some surf\<rparr>) in
                case getContext h surf of
                  Some e \<Rightarrow> (Some e, s2)
                | None \<Rightarrow>
                    (let ctx = \<lparr> ctx_surface = surf, ctx_configured = None \<rparr>;
                         cfg = \<lparr> cfg_device = device,
                                 cfg_format = presentationFormat (this s2),
                                 cfg_width = w_arg, cfg_height = h_arg \<rparr>;
                         s3 = does (Configure surf cfg) (s2\<lparr>context_var := Some ctx\<rparr>) in
                     case configure h surf cfg of
                       Some e \<Rightarrow> (Some e, s3)
                     | None \<Rightarrow>
                         (None, s3\<lparr>context_var := Some (ctx\<lparr>ctx_configured := Some cfg\<rparr>)\<rparr>)))))"

text \<open>The setup callback (lines 211 to 225).\<close>

definition setupFunctionFfiCallback ::
  "host \<Rightarrow> device \<Rightarrow> pointer_value \<Rightarrow> pointer_value \<Rightarrow> 32 word \<Rightarrow> 32 word \<Rightarrow> bridge
     \<Rightarrow> error option \<times> bridge" where
  "setupFunctionFfiCallback h device winHandle dispHandle w_arg h_arg s =
     (let s1 = s\<lparr>windowHandle := winHandle, displayHandle := dispHandle\<rparr> in
      case setupSurfaceAndContext h device (windowHandle s1) (displayHandle s1)
             (number_of_u32 w_arg) (number_of_u32 h_arg) s1 of
        (Some e, s2) \<Rightarrow> (Some e, s2)
      | (None, s2) \<Rightarrow>
          (case context_var s2 of
             None \<Rightarrow> (None, does (ConsoleError ''Context not initialized.'') s2)
           | Some ctx \<Rightarrow>
               (setupFunction (this s2) device ctx, does (UserSetup device ctx) s2)))"

text \<open>\<open>drawFunctionCallback\<close> (lines 227 to 240), which is also the draw callback.\<close>

definition drawFunctionCallback :: "host \<Rightarrow> device \<Rightarrow> bridge \<Rightarrow> error option \<times> bridge" where
  "drawFunctionCallback h device s =
     (case surface_var s of
        None \<Rightarrow> (None, does (ConsoleError ''Surface not initialized.'') s)
      | Some surf \<Rightarrow>
          (case context_var s of
             None \<Rightarrow> (None, does (ConsoleError ''Context not initialized.'') s)
           | Some ctx \<Rightarrow>
               (let s1 = does (UserDraw device ctx) s in
                case drawFunction (this s) device ctx of
                  Some e \<Rightarrow> (Some e, s1)
                | None \<Rightarrow> (present h surf, does (Present surf) s1))))"

text \<open>The resize callback (lines 246 to 260).\<close>

definition resizeFunctionFfiCallback ::
  "host \<Rightarrow> device \<Rightarrow> 32 word \<Rightarrow> 32 word \<Rightarrow> bridge \<Rightarrow> error option \<times> bridge" where
  "resizeFunctionFfiCallback h device w_arg h_arg s =
     (let s1 = s\<lparr>this := (this s)\<lparr>width := number_of_u32 w_arg,
                                     height := number_of_u32 h_arg\<rparr>\<rparr>;
          s2 = does (UserResize (number_of_u32 w_arg) (number_of_u32 h_arg)) s1 in
      case resizeFunction (this s1) (number_of_u32 w_arg) (number_of_u32 h_arg) of
        Some e \<Rightarrow> (Some e, s2)
      | None \<Rightarrow>
          (if system (this s2) = Some Cocoa then
             (case setupSurfaceAndContext h device (windowHandle s2) (displayHandle s2)
                     (number_of_u32 w_arg) (number_of_u32 h_arg) s2 of
                (Some e, s3) \<Rightarrow> (Some e, s3)
              | (None, s3) \<Rightarrow> drawFunctionCallback h device s3)
           else (None, s2)))"

text \<open>One invocation by the native library of the callback it names.\<close>

fun callback :: "host \<Rightarrow> device \<Rightarrow> event \<Rightarrow> bridge \<Rightarrow> error option \<times> bridge" where
  "callback h device (OnSetup winHandle dispHandle w_arg h_arg) s =
     setupFunctionFfiCallback h device winHandle dispHandle w_arg h_arg s"
| "callback h device OnDraw s = drawFunctionCallback h device s"
| "callback h device (OnResize w_arg h_arg) s =
     resizeFunctionFfiCallback h device w_arg h_arg s"

text \<open>
  Modelled from the spec: the event loop of the native library (Rust, not in
  \<open>mod.ts\<close>). It invokes the callbacks one after the other on the calling thread, and
  an exception that leaves a callback ends the run: nothing is invoked after it.
\<close>

fun event_loop :: "host \<Rightarrow> device \<Rightarrow> event list \<Rightarrow> bridge \<Rightarrow> error option \<times> bridge" where
  "event_loop h device [] s = (None, s)"
| "event_loop h device (ev # evs) s =
     (case callback h device ev s of
        (Some e, s') \<Rightarrow> (Some e, s')
      | (None, s') \<Rightarrow> event_loop h device evs s')"

definition initial_bridge :: "winit_window \<Rightarrow> bridge" where
  "initial_bridge w =
     \<lparr> this = w, surface_var = None, context_var = None,
       windowHandle = None, displayHandle = None, trace = [] \<rparr>"

text \<open>
  \<open>spawn()\<close> (lines 163 to 272). The result is how the promise it returns settles:
  \<open>None\<close> when it resolves, \<open>Some e\<close> when it rejects with \<open>e\<close>.
\<close>

definition spawn :: "host \<Rightarrow> winit_window \<Rightarrow> error option \<times> bridge" where
  "spawn h w =
     (let s0 = initial_bridge w in
      case dylibPromise w of
        None \<Rightarrow> (Some (Error ''Dynamic library not loaded.''), s0)
      | Some p \<Rightarrow>
          (case system w of
             None \<Rightarrow> (Some (Error ''System not supported.''), s0)
           | Some _ \<Rightarrow>
               (let s1 = does RequestAdapter s0 in
                case requestAdapter h of
                  Inl e \<Rightarrow> (Some e, s1)
                | Inr None \<Rightarrow> (Some (Error ''No GPU adapter found.''), s1)
                | Inr (Some adapter) \<Rightarrow>
                    (let s2 = does (RequestDevice adapter) s1 in
                     case requestDevice h adapter of
                       Inl e \<Rightarrow> (Some e, s2)
                     | Inr None \<Rightarrow> (Some (Error ''No GPU device found.''), s2)
                     | Inr (Some device) \<Rightarrow>
                         (case p of
                            Rejected e \<Rightarrow> (Some e, s2)
                          | Resolved lib \<Rightarrow>
                              (let title = asCString (windowTitle (this s2));
                                   icon = (case windowIconPath (this s2) of
                                             None \<Rightarrow> None
                                           | Some path \<Rightarrow>
                                               if truthy_string path
                                               then Some (asCString path) else None);
                                   s3 = does (SpawnWindow title icon (width (this s2))
                                                (height (this s2))) s2
                               in event_loop h device
                                    (lib title icon (width (this s2)) (height (this s2)))
                                    s3))))))"



subsection \<open>Orderings of a trace and of the events\<close>

text \<open>Whether the user's setup function has been invoked in a trace.\<close>

fun is_UserSetup :: "action \<Rightarrow> bool" where
  "is_UserSetup (UserSetup d c) = True"
| "is_UserSetup _ = False"

fun is_UserDraw :: "action \<Rightarrow> bool" where
  "is_UserDraw (UserDraw d c) = True"
| "is_UserDraw _ = False"

definition setup_seen :: "action list \<Rightarrow> bool" where
  "setup_seen t = list_ex is_UserSetup t"

text \<open>
  Every invocation of the user's draw function comes after an invocation of the user's
  setup function; the flag says whether one has been seen already.
\<close>

fun draw_follows_setup :: "bool \<Rightarrow> action list \<Rightarrow> bool" where
  "draw_follows_setup seen [] = True"
| "draw_follows_setup seen (a # t) =
     ((is_UserDraw a \<longrightarrow> seen) \<and> draw_follows_setup (seen \<or> is_UserSetup a) t)"

text \<open>The library invokes the resize callback before it has invoked the setup callback.\<close>

fun resize_before_setup :: "event list \<Rightarrow> bool" where
  "resize_before_setup [] = False"
| "resize_before_setup (OnSetup wh dh w_arg h_arg # evs) = False"
| "resize_before_setup (OnDraw # evs) = resize_before_setup evs"
| "resize_before_setup (OnResize w_arg h_arg # evs) = True"

text \<open>
  The exception that a sequence of calls ends in: that of the first call that throws,
  the calls after it not being made.
\<close>

fun first_thrown :: "error option list \<Rightarrow> error option" where
  "first_thrown [] = None"
| "first_thrown (None # calls) = first_thrown calls"
| "first_thrown (Some e # calls) = Some e"


text \<open>
  What a callback may add to the trace, for the window \<open>t\<close>: a configuration with the
  window's format, any message but \<open>System not supported.\<close> when the window has a tag,
  and no request and no native call.
\<close>

fun callback_may_do :: "winit_window \<Rightarrow> action \<Rightarrow> bool" where
  "callback_may_do t (Configure surf cfg) = (cfg_format cfg = presentationFormat t)"
| "callback_may_do t (ConsoleError m) = (system t = None \<or> m \<noteq> ''System not supported.'')"
| "callback_may_do t (SpawnWindow title icon w_arg h_arg) = False"
| "callback_may_do t RequestAdapter = False"
| "callback_may_do t (RequestDevice ad) = False"
| "callback_may_do t a = True"

subsection \<open>Hosts and options for the worked examples\<close>

definition example_lib :: "event list \<Rightarrow> dylib" where
  "example_lib evs = (\<lambda>title icon w_arg h_arg. evs)"

text \<open>A host on which every call succeeds and the library delivers the given events.\<close>

definition example_host :: "string \<Rightarrow> event list \<Rightarrow> host" where
  "example_host os evs =
     \<lparr> build_os = os,
       env_get = (\<lambda>_. None),
       deno_dlopen = (\<lambda>_. Inl (Error ''library not found'')),
       plug_dlopen = (\<lambda>_ _. Resolved (example_lib evs)),
       requestAdapter = Inr (Some 1),
       requestDevice = (\<lambda>_. Inr (Some 2)),
       new_UnsafeWindowSurface = (\<lambda>_ _ _. None),
       getContext = (\<lambda>_. None),
       configure = (\<lambda>_ _. None),
       present = (\<lambda>_. None) \<rparr>"

definition no_options :: options where
  "no_options =
     \<lparr> opt_forceX11 = None, opt_windowTitle = None, opt_windowIconPath = None,
       opt_width = None, opt_height = None, opt_presentationFormat = None,
       opt_setupFunction = None, opt_drawFunction = None, opt_resizeFunction = None \<rparr>"

text \<open>The window that the constructor returns on \<open>example_host os evs\<close> for no options.\<close>

definition example_window :: "system \<Rightarrow> event list \<Rightarrow> winit_window" where
  "example_window sys evs =
     field_initialisers\<lparr>system := Some sys,
                        dylibPromise := Some (Resolved (example_lib evs))\<rparr>"

text \<open>A run of the library: setup, a frame, a resize, a frame.\<close>

definition example_events :: "event list" where
  "example_events = [OnSetup (Some 1) (Some 2) 800 600, OnDraw, OnResize 400 300, OnDraw]"

text \<open>The state after the setup callback has run on the example window.\<close>

definition ready_bridge :: "system \<Rightarrow> bridge" where
  "ready_bridge sys =
     snd (setupFunctionFfiCallback (example_host [] []) 2 (Some 1) (Some 2) 800 600
            (initial_bridge (example_window sys [])))"

text \<open>A host whose surface constructor throws when the window handle is null.\<close>

definition rejecting_host :: "string \<Rightarrow> event list \<Rightarrow> host" where
  "rejecting_host os evs =
     (example_host os evs)\<lparr>new_UnsafeWindowSurface :=
        (\<lambda>sys wh dh. if wh = None then Some (Error ''Invalid parameters'') else None)\<rparr>"


text \<open>Hosts without a GPU adapter and without a GPU device.\<close>

definition no_adapter_host :: host where
  "no_adapter_host = (example_host ''linux'' example_events)\<lparr>requestAdapter := Inr None\<rparr>"

definition no_device_host :: host where
  "no_device_host = (example_host ''linux'' example_events)\<lparr>requestDevice := (\<lambda>_. Inr None)\<rparr>"



section \<open>Properties\<close>

subsection \<open>The marshalling of strings\<close>

lemma unat8: "n < 256 \<Longrightarrow> unat (byte n) = n"
  by (simp add: byte_def unat_of_nat)

lemma div_mod_64:
  fixes n :: nat
  obtains q r where "n = q * 0x40 + r" "r < 0x40" "n div 0x40 = q" "n mod 0x40 = r"
proof
  show "n = n div 0x40 * 0x40 + n mod 0x40" by simp
  show "n mod 0x40 < 0x40" by simp
qed simp_all

lemma utf8_decode_bytes:
  assumes "scalar cp"
  shows "utf8_decode_from 0 0 0x80 0xBF (utf8_bytes cp @ bs) =
         map_option (Cons cp) (utf8_decode_from 0 0 0x80 0xBF bs)"
proof -
  obtain q1 d where d: "cp = q1 * 0x40 + d" "d < 0x40" "cp div 0x40 = q1" "cp mod 0x40 = d"
    by (rule div_mod_64)
  obtain q2 c where c: "q1 = q2 * 0x40 + c" "c < 0x40" "q1 div 0x40 = q2" "q1 mod 0x40 = c"
    by (rule div_mod_64)
  obtain a b where b: "q2 = a * 0x40 + b" "b < 0x40" "q2 div 0x40 = a" "q2 mod 0x40 = b"
    by (rule div_mod_64)
  have q2: "cp div 0x1000 = q2"
    using div_mult2_eq [of cp "0x40" "0x40"] d(3) c(3) by simp
  have a: "cp div 0x40000 = a"
    using div_mult2_eq [of cp "0x1000" "0x40"] q2 b(3) by simp
  have ns: "cp < 0x110000" "cp < 0xD800 \<or> 0xDFFF < cp"
    using assms unfolding scalar_def by linarith+
  consider "cp < 0x80" | "0x80 \<le> cp \<and> cp < 0x800" | "0x800 \<le> cp \<and> cp < 0x10000"
    | "0x10000 \<le> cp \<and> cp < 0x110000"
    using ns by linarith
  then show ?thesis
  proof cases
    case 1
    then show ?thesis by (simp add: utf8_bytes_def unat8)
  next
    case 2
    have e: "utf8_bytes cp = [byte (0xC0 + q1), byte (0x80 + d)]"
      using 2 d by (simp add: utf8_bytes_def)
    have r: "2 \<le> q1" "q1 < 0x20" using 2 d by linarith+
    show ?thesis using r d(2) d(1) [symmetric] by (simp add: e unat8)
  next
    case 3
    have e: "utf8_bytes cp = [byte (0xE0 + q2), byte (0x80 + c), byte (0x80 + d)]"
      using 3 d c q2 by (simp add: utf8_bytes_def)
    have r: "q2 < 0x10" "q2 = 0 \<longrightarrow> 0x20 \<le> c" "q2 = 0xD \<longrightarrow> c < 0x20"
      using 3 ns d c by linarith+
    have v: "(q2 * 0x40 + c) * 0x40 + d = cp" using d c by simp
    show ?thesis using r d(2) c(2) v by (auto simp: e unat8)
  next
    case 4
    have e: "utf8_bytes cp =
        [byte (0xF0 + a), byte (0x80 + b), byte (0x80 + c), byte (0x80 + d)]"
      using 4 d c b q2 a by (simp add: utf8_bytes_def)
    have r: "a < 5" "a = 0 \<longrightarrow> 0x10 \<le> b" "a = 4 \<longrightarrow> b < 0x10"
      using 4 d c b by linarith+
    have v: "((a * 0x40 + b) * 0x40 + c) * 0x40 + d = cp" using d c b by simp
    show ?thesis using r d(2) c(2) b(2) v by (auto simp: e unat8)
  qed
qed

lemma utf8_decode_concat:
  "list_all scalar cps \<Longrightarrow>
   utf8_decode_from 0 0 0x80 0xBF (concat (map utf8_bytes cps)) = Some cps"
  by (induction cps) (simp_all add: utf8_decode_bytes)

lemma scalar_values_scalar: "list_all scalar (scalar_values s)"
proof (induction s rule: scalar_values.induct)
  case 1
  then show ?case by simp
next
  case (2 c)
  have "unat c < 2 ^ 16" using unsigned_less [of c, where 'a = nat] by simp
  then show ?case
    by (auto simp: scalar_def is_high_surrogate_def is_low_surrogate_def)
next
  case (3 c d r)
  have "unat c < 2 ^ 16" using unsigned_less [of c, where 'a = nat] by simp
  with 3 show ?case
    by (auto simp: scalar_def is_high_surrogate_def is_low_surrogate_def)
qed

lemma scalar_values_snoc_zero: "scalar_values (s @ [0]) = scalar_values s @ [0]"
  by (induction s rule: scalar_values.induct)
     (simp_all add: is_high_surrogate_def is_low_surrogate_def)

lemma unat16: "n < 65536 \<Longrightarrow> unat (of_nat n :: 16 word) = n"
  by (simp add: unat_of_nat)

lemma utf16_units_pair:
  assumes "is_high_surrogate c" "is_low_surrogate d"
  shows "utf16_units (0x10000 + (unat c - 0xD800) * 0x400 + (unat d - 0xDC00)) = [c, d]"
proof -
  define x where "x = unat c - 0xD800"
  define y where "y = unat d - 0xDC00"
  have b: "x < 0x400" "y < 0x400" "0xD800 + x = unat c" "0xDC00 + y = unat d"
    using assms by (auto simp: is_high_surrogate_def is_low_surrogate_def x_def y_def)
  have "utf16_units (0x10000 + x * 0x400 + y) = [of_nat (0xD800 + x), of_nat (0xDC00 + y)]"
    using b(1,2) by (simp add: utf16_units_def)
  also have "\<dots> = [of_nat (unat c), of_nat (unat d)]"
    by (simp only: b(3,4))
  also have "\<dots> = [c, d]"
    by simp
  finally show ?thesis
    by (simp only: x_def y_def)
qed

lemma utf16_of_scalar_values:
  "well_formed s \<Longrightarrow> concat (map utf16_units (scalar_values s)) = s"
proof (induction s rule: scalar_values.induct)
  case 1
  then show ?case by simp
next
  case (2 c)
  have "unat c < 65536" using unsigned_less [of c, where 'a = nat] by simp
  with 2 show ?case by (simp add: utf16_units_def)
next
  case (3 c d r)
  show ?case
  proof (cases "is_high_surrogate c")
    case True
    with 3 show ?thesis by (simp add: utf16_units_pair)
  next
    case False
    have "unat c < 65536" using unsigned_less [of c, where 'a = nat] by simp
    with False 3 show ?thesis by (simp add: utf16_units_def)
  qed
qed

lemma byte_eq_0: "n < 256 \<Longrightarrow> (byte n = 0) = (n = 0)"
  using unat8 [of n] by (metis unat8 unat_eq_0 zero_less_numeral)

lemma utf8_bytes_nonzero:
  assumes "0 < cp" "cp < 0x110000"
  shows "0 \<notin> set (utf8_bytes cp)"
proof -
  have q: "cp div 0x40000 < 5" "cp < 0x800 \<Longrightarrow> cp div 0x40 < 0x20"
    "cp < 0x10000 \<Longrightarrow> cp div 0x1000 < 0x10"
    using assms by (simp_all add: div_less_iff_less_mult)
  have m: "n mod 0x40 < 0x40" for n :: nat by simp
  have z: "(0 = byte n) = (byte n = 0)" for n by auto
  show ?thesis
    using assms q m [of cp] m [of "cp div 0x40"] m [of "cp div 0x1000"]
    by (auto simp: utf8_bytes_def z byte_eq_0)
qed

lemma scalar_values_nonzero: "0 \<notin> set s \<Longrightarrow> 0 \<notin> set (scalar_values s)"
  by (induction s rule: scalar_values.induct)
     (auto simp: is_high_surrogate_def is_low_surrogate_def unat_gt_0)


lemma asCString_eq: "asCString s = TextEncoder_encode s @ [0]"
  by (simp add: asCString_def TextEncoder_encode_def scalar_values_snoc_zero utf8_bytes_def byte_def)

lemma encode_nonzero:
  assumes "0 \<notin> set s"
  shows "0 \<notin> set (TextEncoder_encode s)"
proof -
  have "0 \<notin> set (utf8_bytes cp)" if "cp \<in> set (scalar_values s)" for cp
  proof (rule utf8_bytes_nonzero)
    show "0 < cp"
      using that scalar_values_nonzero [OF assms] by (cases "cp = 0") simp_all
    show "cp < 0x110000"
      using that scalar_values_scalar [of s] by (simp add: list_all_iff scalar_def)
  qed
  then show ?thesis
    by (simp add: TextEncoder_encode_def)
qed

text \<open>
  Claim C6, as amended. For every string \<open>s\<close>, \<open>asCString s\<close> is the encoding of \<open>s\<close>
  followed by one zero byte; and when \<open>s\<close> has no zero code unit, that terminator is
  the only zero byte of the buffer. When \<open>s\<close> is well formed (it has no unpaired
  surrogate), decoding the buffer without its last byte as UTF-8 gives \<open>s\<close> back.
\<close>

theorem asCString_round_trip:
  "asCString s = TextEncoder_encode s @ [0] \<and>
   (0 \<notin> set s \<longrightarrow> 0 \<notin> set (TextEncoder_encode s)) \<and>
   (well_formed s \<longrightarrow> utf8_decode (butlast (asCString s)) = Some s)"
proof (intro conjI impI)
  show "asCString s = TextEncoder_encode s @ [0]"
    by (rule asCString_eq)
  show "0 \<notin> set (TextEncoder_encode s)" if "0 \<notin> set s"
    using that by (rule encode_nonzero)
  assume "well_formed s"
  then have "utf8_decode (TextEncoder_encode s) = Some s"
    by (simp add: utf8_decode_def TextEncoder_encode_def utf8_decode_concat
          scalar_values_scalar utf16_of_scalar_values)
  then show "utf8_decode (butlast (asCString s)) = Some s"
    by (simp add: asCString_eq)
qed

text \<open>
  The claim at the string \<open>H\<close>, e acute, the euro sign and an emoji (a surrogate pair),
  which is well formed and has no zero; and its first two parts at the ill-formed
  string of the one code unit U+D800.
\<close>

theorem asCString_round_trip_witness:
  "well_formed [0x48, 0xE9, 0x20AC, 0xD83D, 0xDE00] \<and>
   (0 :: 16 word) \<notin> set [0x48, 0xE9, 0x20AC, 0xD83D, 0xDE00] \<and>
   asCString [0x48, 0xE9, 0x20AC, 0xD83D, 0xDE00] =
     [0x48, 0xC3, 0xA9, 0xE2, 0x82, 0xAC, 0xF0, 0x9F, 0x98, 0x80, 0] \<and>
   utf8_decode [0x48, 0xC3, 0xA9, 0xE2, 0x82, 0xAC, 0xF0, 0x9F, 0x98, 0x80] =
     Some [0x48, 0xE9, 0x20AC, 0xD83D, 0xDE00] \<and>
   (0 :: 8 word) \<notin> set (TextEncoder_encode [0x48, 0xE9, 0x20AC, 0xD83D, 0xDE00]) \<and>
   asCString [0xD800] = TextEncoder_encode [0xD800] @ [0] \<and>
   (0 :: 8 word) \<notin> set (TextEncoder_encode [0xD800])"
proof -
  have w: "well_formed [0x48, 0xE9, 0x20AC, 0xD83D, 0xDE00]"
    by (simp add: is_high_surrogate_def is_low_surrogate_def)
  have z: "(0 :: 16 word) \<notin> set [0x48, 0xE9, 0x20AC, 0xD83D, 0xDE00]"
    "(0 :: 16 word) \<notin> set [0xD800]"
    by simp_all
  have e: "asCString [0x48, 0xE9, 0x20AC, 0xD83D, 0xDE00] =
     [0x48, 0xC3, 0xA9, 0xE2, 0x82, 0xAC, 0xF0, 0x9F, 0x98, 0x80, 0]"
    by (simp add: asCString_def TextEncoder_encode_def utf8_bytes_def byte_def
          is_high_surrogate_def is_low_surrogate_def)
  note t = asCString_round_trip [of "[0x48, 0xE9, 0x20AC, 0xD83D, 0xDE00]"]
  note u = asCString_round_trip [of "[0xD800]"]
  have "utf8_decode (butlast (asCString [0x48, 0xE9, 0x20AC, 0xD83D, 0xDE00])) =
      Some [0x48, 0xE9, 0x20AC, 0xD83D, 0xDE00]"
    using t w by blast
  then have d: "utf8_decode [0x48, 0xC3, 0xA9, 0xE2, 0x82, 0xAC, 0xF0, 0x9F, 0x98, 0x80] =
      Some [0x48, 0xE9, 0x20AC, 0xD83D, 0xDE00]"
    unfolding e by simp
  have n: "(0 :: 8 word) \<notin> set (TextEncoder_encode [0x48, 0xE9, 0x20AC, 0xD83D, 0xDE00])"
    using t z(1) by blast
  have m: "asCString [0xD800] = TextEncoder_encode [0xD800] @ [0]"
    "(0 :: 8 word) \<notin> set (TextEncoder_encode [0xD800])"
    using u z(2) by blast+
  show ?thesis using w z(1) e d n m by blast
qed

text \<open>
  Claim C6 as stated fails at the string of the single code unit U+D800, which has no
  zero: the encoder writes U+FFFD for it, the buffer decodes to U+FFFD, and the string
  U+FFFD is marshalled to the same buffer, so that no decoder can tell the two apart.
\<close>

theorem asCString_lone_surrogate:
  "(0 :: 16 word) \<notin> set [0xD800] \<and>
   asCString [0xD800] = [0xEF, 0xBF, 0xBD, 0] \<and>
   utf8_decode (butlast (asCString [0xD800])) = Some [0xFFFD] \<and>
   asCString [0xD800] = asCString [0xFFFD] \<and>
   \<not> well_formed [0xD800]"
  by (simp add: asCString_def TextEncoder_encode_def utf8_bytes_def byte_def
        is_high_surrogate_def is_low_surrogate_def utf8_decode_def utf16_units_def)

subsection \<open>The constructor\<close>

lemma assign_if_None: "assign_if tr None f t = t"
  by (simp add: assign_if_def)

lemma assign_if_falsy: "\<not> tr x \<Longrightarrow> assign_if tr (Some x) f t = t"
  by (simp add: assign_if_def)

lemma assign_if_frame:
  "(\<And>x t. sel (f x t) = sel t) \<Longrightarrow> sel (assign_if tr v f t) = sel t"
  by (simp add: assign_if_def split: option.splits)

lemmas assign_if_frames =
  assign_if_frame [where sel = system] assign_if_frame [where sel = dylibPromise]
  assign_if_frame [where sel = width] assign_if_frame [where sel = height]
  assign_if_frame [where sel = windowTitle] assign_if_frame [where sel = windowIconPath]
  assign_if_frame [where sel = presentationFormat]

lemma constructor_Inr:
  assumes "constructor h a = Inr t"
  obtains sys p where
    "t = (assign_options a field_initialisers)\<lparr>system := Some sys, dylibPromise := Some p\<rparr>"
  using assms
  by (auto simp: constructor_def Let_def resolve_system_def
           split: sum.splits if_splits)

lemma constructor_example:
  "constructor (example_host ''linux'' evs) no_options = Inr (example_window Wayland evs)"
  "constructor (example_host ''linux'' evs) (no_options\<lparr>opt_forceX11 := Some True\<rparr>)
     = Inr (example_window X11 evs)"
  "constructor (example_host ''windows'' evs) no_options = Inr (example_window Win32 evs)"
  "constructor (example_host ''darwin'' evs) no_options = Inr (example_window Cocoa evs)"
  by (simp_all add: constructor_def example_host_def no_options_def example_window_def
        resolve_system_def assign_options_def assign_if_def VERSION_def)



text \<open>
  Claim C9. An option is taken when it is truthy, not when it is present: a width or
  height of \<open>0\<close>, an empty title and an empty icon path construct exactly what the
  omitted option constructs, with the width and height \<open>512\<close>, the title
  \<open>Deno + winit\<close> and no icon.
\<close>

theorem defaulting_by_truthiness:
  "constructor h (a\<lparr>opt_width := Some (Finite 0)\<rparr>) = constructor h (a\<lparr>opt_width := None\<rparr>) \<and>
   constructor h (a\<lparr>opt_height := Some (Finite 0)\<rparr>) = constructor h (a\<lparr>opt_height := None\<rparr>) \<and>
   constructor h (a\<lparr>opt_windowTitle := Some []\<rparr>) = constructor h (a\<lparr>opt_windowTitle := None\<rparr>) \<and>
   constructor h (a\<lparr>opt_windowIconPath := Some []\<rparr>)
     = constructor h (a\<lparr>opt_windowIconPath := None\<rparr>) \<and>
   (\<forall>t. constructor h (a\<lparr>opt_width := Some (Finite 0)\<rparr>) = Inr t \<longrightarrow> width t = Finite 512) \<and>
   (\<forall>t. constructor h (a\<lparr>opt_height := Some (Finite 0)\<rparr>) = Inr t \<longrightarrow> height t = Finite 512) \<and>
   (\<forall>t. constructor h (a\<lparr>opt_windowTitle := Some []\<rparr>) = Inr t \<longrightarrow>
        windowTitle t = js ''Deno + winit'') \<and>
   (\<forall>t. constructor h (a\<lparr>opt_windowIconPath := Some []\<rparr>) = Inr t \<longrightarrow>
        windowIconPath t = None)"
proof -
  have 1: "assign_options (a\<lparr>opt_width := Some (Finite 0)\<rparr>) t
             = assign_options (a\<lparr>opt_width := None\<rparr>) t" for t
    by (simp add: assign_options_def assign_if_def)
  have 2: "assign_options (a\<lparr>opt_height := Some (Finite 0)\<rparr>) t
             = assign_options (a\<lparr>opt_height := None\<rparr>) t" for t
    by (simp add: assign_options_def assign_if_def)
  have 3: "assign_options (a\<lparr>opt_windowTitle := Some []\<rparr>) t
             = assign_options (a\<lparr>opt_windowTitle := None\<rparr>) t" for t
    by (simp add: assign_options_def assign_if_def truthy_string_def)
  have 4: "assign_options (a\<lparr>opt_windowIconPath := Some []\<rparr>) t
             = assign_options (a\<lparr>opt_windowIconPath := None\<rparr>) t" for t
    by (simp add: assign_options_def assign_if_def truthy_string_def)
  have w: "width (assign_options (a\<lparr>opt_width := None\<rparr>) field_initialisers) = Finite 512"
    by (simp add: assign_options_def Let_def assign_if_None assign_if_frames field_initialisers_def)
  have hh: "height (assign_options (a\<lparr>opt_height := None\<rparr>) field_initialisers) = Finite 512"
    by (simp add: assign_options_def Let_def assign_if_None assign_if_frames field_initialisers_def)
  have ti: "windowTitle (assign_options (a\<lparr>opt_windowTitle := None\<rparr>) field_initialisers)
      = js ''Deno + winit''"
    by (simp add: assign_options_def Let_def assign_if_None assign_if_frames field_initialisers_def)
  have ic: "windowIconPath (assign_options (a\<lparr>opt_windowIconPath := None\<rparr>) field_initialisers)
      = None"
    by (simp add: assign_options_def Let_def assign_if_None assign_if_frames field_initialisers_def)
  have c: "constructor h (a\<lparr>opt_width := Some (Finite 0)\<rparr>) = constructor h (a\<lparr>opt_width := None\<rparr>)"
    "constructor h (a\<lparr>opt_height := Some (Finite 0)\<rparr>) = constructor h (a\<lparr>opt_height := None\<rparr>)"
    "constructor h (a\<lparr>opt_windowTitle := Some []\<rparr>) = constructor h (a\<lparr>opt_windowTitle := None\<rparr>)"
    "constructor h (a\<lparr>opt_windowIconPath := Some []\<rparr>)
       = constructor h (a\<lparr>opt_windowIconPath := None\<rparr>)"
    by (simp_all add: constructor_def 1 2 3 4)
  have d1: "width t = Finite 512" if "constructor h (a\<lparr>opt_width := None\<rparr>) = Inr t" for t
    using that w by (auto elim!: constructor_Inr)
  have d2: "height t = Finite 512" if "constructor h (a\<lparr>opt_height := None\<rparr>) = Inr t" for t
    using that hh by (auto elim!: constructor_Inr)
  have d3: "windowTitle t = js ''Deno + winit''"
    if "constructor h (a\<lparr>opt_windowTitle := None\<rparr>) = Inr t" for t
    using that ti by (auto elim!: constructor_Inr)
  have d4: "windowIconPath t = None"
    if "constructor h (a\<lparr>opt_windowIconPath := None\<rparr>) = Inr t" for t
    using that ic by (auto elim!: constructor_Inr)
  show ?thesis
    by (simp add: c d1 d2 d3 d4)
qed

text \<open>Claim C9 on linux, with every other option omitted.\<close>

theorem defaulting_by_truthiness_witness:
  "constructor (example_host ''linux'' [])
     (no_options\<lparr>opt_width := Some (Finite 0)\<rparr>) = Inr (example_window Wayland []) \<and>
   constructor (example_host ''linux'' [])
     (no_options\<lparr>opt_height := Some (Finite 0)\<rparr>) = Inr (example_window Wayland []) \<and>
   constructor (example_host ''linux'' [])
     (no_options\<lparr>opt_windowTitle := Some []\<rparr>) = Inr (example_window Wayland []) \<and>
   constructor (example_host ''linux'' [])
     (no_options\<lparr>opt_windowIconPath := Some []\<rparr>) = Inr (example_window Wayland []) \<and>
   width (example_window Wayland []) = Finite 512 \<and>
   height (example_window Wayland []) = Finite 512 \<and>
   windowTitle (example_window Wayland []) = js ''Deno + winit'' \<and>
   windowIconPath (example_window Wayland []) = None"
proof -
  have n: "no_options\<lparr>opt_width := None\<rparr> = no_options"
    "no_options\<lparr>opt_height := None\<rparr> = no_options"
    "no_options\<lparr>opt_windowTitle := None\<rparr> = no_options"
    "no_options\<lparr>opt_windowIconPath := None\<rparr> = no_options"
    by (simp_all add: no_options_def)
  show ?thesis
    using defaulting_by_truthiness [of "example_host ''linux'' []" no_options]
    by (simp add: n constructor_example)
qed

subsection \<open>The callbacks\<close>

lemma does_simps [simp]:
  "this (does a s) = this s"
  "surface_var (does a s) = surface_var s"
  "context_var (does a s) = context_var s"
  "windowHandle (does a s) = windowHandle s"
  "displayHandle (does a s) = displayHandle s"
  "trace (does a s) = trace s @ [a]"
  by (simp_all add: does_def)

lemma setupSurfaceAndContext_frame:
  assumes "setupSurfaceAndContext h d wh dh W H s = (r, s')"
  shows "this s' = this s \<and> windowHandle s' = windowHandle s \<and>
         displayHandle s' = displayHandle s"
  using assms
  by (auto simp: setupSurfaceAndContext_def Let_def split: option.splits)

lemma setupSurfaceAndContext_no_system:
  "system (this s) = None \<Longrightarrow>
   setupSurfaceAndContext h d wh dh W H s =
     (None, does (ConsoleError ''System not supported.'') s)"
  by (simp add: setupSurfaceAndContext_def)

text \<open>What a call of \<open>setupSurfaceAndContext\<close> that returns has done.\<close>

lemma setupSurfaceAndContext_returns:
  assumes "setupSurfaceAndContext h d wh dh W H s = (None, s')" "system (this s) = Some sys"
  shows "s' = s\<lparr>surface_var := Some \<lparr>surf_system = sys, surf_window = wh, surf_display = dh\<rparr>,
               context_var := Some \<lparr>ctx_surface =
                   \<lparr>surf_system = sys, surf_window = wh, surf_display = dh\<rparr>,
                 ctx_configured = Some \<lparr>cfg_device = d,
                   cfg_format = presentationFormat (this s), cfg_width = W, cfg_height = H\<rparr>\<rparr>,
               trace := trace s @
                 [NewSurface sys wh dh,
                  GetContext \<lparr>surf_system = sys, surf_window = wh, surf_display = dh\<rparr>,
                  Configure \<lparr>surf_system = sys, surf_window = wh, surf_display = dh\<rparr>
                    \<lparr>cfg_device = d, cfg_format = presentationFormat (this s),
                      cfg_width = W, cfg_height = H\<rparr>]\<rparr>"
  using assms
  by (auto simp: setupSurfaceAndContext_def Let_def does_def split: option.splits)

lemma setupSurfaceAndContext_trace:
  assumes "setupSurfaceAndContext h d wh dh W H s = (r, s')" "system (this s) = Some sys"
  shows "\<exists>n\<le>3. trace s' = trace s @ take n
                 [NewSurface sys wh dh,
                  GetContext \<lparr>surf_system = sys, surf_window = wh, surf_display = dh\<rparr>,
                  Configure \<lparr>surf_system = sys, surf_window = wh, surf_display = dh\<rparr>
                    \<lparr>cfg_device = d, cfg_format = presentationFormat (this s),
                      cfg_width = W, cfg_height = H\<rparr>]"
proof -
  let ?l = "[NewSurface sys wh dh,
                  GetContext \<lparr>surf_system = sys, surf_window = wh, surf_display = dh\<rparr>,
                  Configure \<lparr>surf_system = sys, surf_window = wh, surf_display = dh\<rparr>
                    \<lparr>cfg_device = d, cfg_format = presentationFormat (this s),
                      cfg_width = W, cfg_height = H\<rparr>]"
  have "trace s' = trace s @ take 1 ?l \<or> trace s' = trace s @ take 2 ?l
      \<or> trace s' = trace s @ take 3 ?l"
    using assms
    by (auto simp: setupSurfaceAndContext_def Let_def split: option.splits)
  then show ?thesis by (meson le_numeral_extra(4) numeral_le_iff semiring_norm(68,69,70,72,73) order_refl one_le_numeral)
qed

lemma drawFunctionCallback_frame:
  assumes "drawFunctionCallback h d s = (r, s')"
  shows "this s' = this s \<and> windowHandle s' = windowHandle s \<and>
         displayHandle s' = displayHandle s \<and> surface_var s' = surface_var s \<and>
         context_var s' = context_var s"
  using assms
  by (auto simp: drawFunctionCallback_def Let_def split: option.splits)

lemma setupFunctionFfiCallback_frame:
  assumes "setupFunctionFfiCallback h d wh dh w hh s = (r, s')"
  shows "this s' = this s"
  using assms
  by (auto simp: setupFunctionFfiCallback_def Let_def split: option.splits prod.splits
           dest: setupSurfaceAndContext_frame)

lemma setupSurfaceAndContext_extends:
  assumes "setupSurfaceAndContext h d wh dh W H s = (r, s')"
  shows "\<exists>tl. trace s' = trace s @ tl"
  using assms
  by (auto simp: setupSurfaceAndContext_def Let_def split: option.splits)

lemma drawFunctionCallback_extends:
  assumes "drawFunctionCallback h d s = (r, s')"
  shows "\<exists>tl. trace s' = trace s @ tl"
  using assms
  by (auto simp: drawFunctionCallback_def Let_def split: option.splits)

lemma drawFunctionCallback_not_ready:
  assumes "surface_var s = None \<or> context_var s = None"
  shows "drawFunctionCallback h d s = (None, does (ConsoleError ''Surface not initialized.'') s)
       \<or> drawFunctionCallback h d s = (None, does (ConsoleError ''Context not initialized.'') s)"
  using assms by (auto simp: drawFunctionCallback_def split: option.splits)

lemma drawFunctionCallback_ready:
  assumes "drawFunctionCallback h d s = (r, s')"
    "surface_var s = Some surf" "context_var s = Some ctx"
  shows "(trace s' = trace s @ [UserDraw d ctx] \<and> r \<noteq> None) \<or>
         trace s' = trace s @ [UserDraw d ctx, Present surf]"
proof (cases "drawFunction (this s) d ctx")
  case None
  show ?thesis using assms by (auto simp: drawFunctionCallback_def Let_def None)
next
  case (Some e)
  show ?thesis using assms by (auto simp: drawFunctionCallback_def Let_def Some)
qed

text \<open>The three ways through the resize callback.\<close>

lemma resizeFunctionFfiCallback_cases:
  assumes "resizeFunctionFfiCallback h d w hh s = (r, s')"
  defines "s2 \<equiv> does (UserResize (number_of_u32 w) (number_of_u32 hh))
    (s\<lparr>this := (this s)\<lparr>width := number_of_u32 w, height := number_of_u32 hh\<rparr>\<rparr>)"
  obtains
    (stop) "s' = s2" "system (this s) = Some Cocoa \<longrightarrow> r \<noteq> None"
  | (rebuild) e where "system (this s) = Some Cocoa" "r = Some e"
      "setupSurfaceAndContext h d (windowHandle s) (displayHandle s)
          (number_of_u32 w) (number_of_u32 hh) s2 = (Some e, s')"
  | (draw) s3 where "system (this s) = Some Cocoa"
      "setupSurfaceAndContext h d (windowHandle s) (displayHandle s)
          (number_of_u32 w) (number_of_u32 hh) s2 = (None, s3)"
      "drawFunctionCallback h d s3 = (r, s')"
proof (cases "resizeFunction (this s) (number_of_u32 w) (number_of_u32 hh)")
  case (Some e)
  have "s' = s2" "r \<noteq> None"
    using assms(1) by (auto simp: resizeFunctionFfiCallback_def Let_def s2_def Some)
  then show ?thesis by (auto intro: stop)
next
  case None
  show ?thesis
  proof (cases "system (this s) = Some Cocoa")
    case False
    have "s' = s2"
      using assms(1) False by (auto simp: resizeFunctionFfiCallback_def Let_def s2_def None)
    with False show ?thesis by (auto intro: stop)
  next
    case True
    obtain r3 s3 where c: "setupSurfaceAndContext h d (windowHandle s) (displayHandle s)
          (number_of_u32 w) (number_of_u32 hh) s2 = (r3, s3)"
      by (cases "setupSurfaceAndContext h d (windowHandle s) (displayHandle s)
          (number_of_u32 w) (number_of_u32 hh) s2")
    show ?thesis
    proof (cases r3)
      case None': None
      have "drawFunctionCallback h d s3 = (r, s')"
        using assms(1) True c None'
        by (simp add: resizeFunctionFfiCallback_def Let_def s2_def None)
      then show ?thesis using True c None' by (auto intro: draw)
    next
      case Some': (Some e)
      have "r = Some e \<and> s' = s3"
        using assms(1) True c Some'
        by (auto simp: resizeFunctionFfiCallback_def Let_def s2_def None)
      then show ?thesis using True c Some' by (auto intro: rebuild)
    qed
  qed
qed

lemma resizeFunctionFfiCallback_frame:
  assumes "resizeFunctionFfiCallback h d w hh s = (r, s')"
  shows "this s' = (this s)\<lparr>width := number_of_u32 w, height := number_of_u32 hh\<rparr> \<and>
         windowHandle s' = windowHandle s \<and> displayHandle s' = displayHandle s \<and>
         (\<exists>tl. trace s' = trace s @ UserResize (number_of_u32 w) (number_of_u32 hh) # tl)"
  using assms
proof (cases rule: resizeFunctionFfiCallback_cases)
  case stop
  then show ?thesis by simp
next
  case (rebuild e)
  then show ?thesis
    using setupSurfaceAndContext_frame [OF rebuild(3)]
      setupSurfaceAndContext_extends [OF rebuild(3)]
    by auto
next
  case (draw s3)
  then show ?thesis
    using setupSurfaceAndContext_frame [OF draw(2)]
      setupSurfaceAndContext_extends [OF draw(2)]
      drawFunctionCallback_frame [OF draw(3)] drawFunctionCallback_extends [OF draw(3)]
    by auto
qed

lemma setupFunctionFfiCallback_handles:
  assumes "setupFunctionFfiCallback h d wh dh w hh s = (r, s')"
  shows "windowHandle s' = wh \<and> displayHandle s' = dh"
  using assms
  by (auto simp: setupFunctionFfiCallback_def Let_def split: option.splits prod.splits
           dest: setupSurfaceAndContext_frame)

lemma callback_this:
  assumes "callback h d ev s = (r, s')" "\<And>w hh. ev \<noteq> OnResize w hh"
  shows "this s' = this s"
  using assms
  by (cases ev) (auto dest: setupFunctionFfiCallback_frame drawFunctionCallback_frame)

lemma event_loop_no_resize:
  "(\<And>w hh. OnResize w hh \<notin> set evs) \<Longrightarrow> this (snd (event_loop h d evs s)) = this s"
proof (induction evs arbitrary: s)
  case Nil
  then show ?case by simp
next
  case (Cons ev evs)
  obtain r s' where c: "callback h d ev s = (r, s')" by (cases "callback h d ev s")
  have t: "this s' = this s"
    using c Cons.prems by (auto intro: callback_this)
  show ?case
  proof (cases r)
    case None
    then show ?thesis using c t Cons by simp
  next
    case (Some e)
    then show ?thesis using c t by simp
  qed
qed

text \<open>
  Claim C8. The setup callback and the draw callback leave the window object as it was:
  width, height, title, icon path, presentation format and the three user functions.
  The resize callback changes the width and the height, and nothing else, to its
  arguments, also when it ends in an exception, and the first call it makes is the
  user's resize function with those same values. An event loop that delivers no resize
  leaves the window object unchanged.
\<close>

theorem dimensions_change_only_on_resize:
  "this (snd (setupFunctionFfiCallback h d wh dh w hh s)) = this s \<and>
   this (snd (drawFunctionCallback h d s)) = this s \<and>
   this (snd (resizeFunctionFfiCallback h d w hh s)) =
     (this s)\<lparr>width := number_of_u32 w, height := number_of_u32 hh\<rparr> \<and>
   (\<exists>tl. trace (snd (resizeFunctionFfiCallback h d w hh s)) =
      trace s @ UserResize (number_of_u32 w) (number_of_u32 hh) # tl) \<and>
   ((\<forall>w' h'. OnResize w' h' \<notin> set evs) \<longrightarrow> this (snd (event_loop h d evs s)) = this s)"
  using setupFunctionFfiCallback_frame [OF surjective_pairing]
    drawFunctionCallback_frame [OF surjective_pairing]
    resizeFunctionFfiCallback_frame [OF surjective_pairing]
    event_loop_no_resize [of evs h d s]
  by blast

text \<open>
  Claim C1. One invocation of the resize callback with \<open>(w, hh)\<close>. On the tag
  \<open>cocoa\<close>, when it returns it has called, in this order and once each: the user's
  resize function, \<open>new Deno.UnsafeWindowSurface\<close> on the stored window and display
  handles, \<open>getContext\<close>, \<open>configure\<close> at the new width and height, the user's draw
  function on the new context, and \<open>present\<close>; the surface and the context are the new
  ones. When an exception ends it early, it has made an initial part of these calls. On
  every other tag, and when the tag is absent, it calls the user's resize function and
  nothing else, and the surface and context stay. The stored handles never change; they
  are the arguments of the last setup callback.
\<close>

theorem resize_rebuilds_on_cocoa_only:
  assumes "resizeFunctionFfiCallback h d w hh s = (r, s')"
  defines "W \<equiv> number_of_u32 w" and "H \<equiv> number_of_u32 hh"
  defines "surf \<equiv> \<lparr>surf_system = Cocoa, surf_window = windowHandle s,
                     surf_display = displayHandle s\<rparr>"
  defines "cfg \<equiv> \<lparr>cfg_device = d, cfg_format = presentationFormat (this s),
                    cfg_width = W, cfg_height = H\<rparr>"
  defines "ctx \<equiv> \<lparr>ctx_surface = surf, ctx_configured = Some cfg\<rparr>"
  defines "rebuilt \<equiv> [UserResize W H, NewSurface Cocoa (windowHandle s) (displayHandle s),
                       GetContext surf, Configure surf cfg, UserDraw d ctx, Present surf]"
  shows "(system (this s) = Some Cocoa \<longrightarrow>
            (\<exists>n. trace s' = trace s @ take n rebuilt) \<and>
            (r = None \<longrightarrow> trace s' = trace s @ rebuilt \<and>
               surface_var s' = Some surf \<and> context_var s' = Some ctx)) \<and>
         (system (this s) \<noteq> Some Cocoa \<longrightarrow>
            trace s' = trace s @ [UserResize W H] \<and>
            surface_var s' = surface_var s \<and> context_var s' = context_var s) \<and>
         windowHandle s' = windowHandle s \<and> displayHandle s' = displayHandle s \<and>
         windowHandle (snd (setupFunctionFfiCallback h d wh dh w0 h0 s0)) = wh \<and>
         displayHandle (snd (setupFunctionFfiCallback h d wh dh w0 h0 s0)) = dh"
proof -
  have resize: "(system (this s) = Some Cocoa \<longrightarrow>
              (\<exists>n. trace s' = trace s @ take n rebuilt) \<and>
              (r = None \<longrightarrow> trace s' = trace s @ rebuilt \<and>
                 surface_var s' = Some surf \<and> context_var s' = Some ctx)) \<and>
           (system (this s) \<noteq> Some Cocoa \<longrightarrow>
              trace s' = trace s @ [UserResize W H] \<and>
              surface_var s' = surface_var s \<and> context_var s' = context_var s) \<and>
           windowHandle s' = windowHandle s \<and> displayHandle s' = displayHandle s"
    using assms(1)
  proof (cases rule: resizeFunctionFfiCallback_cases)
    case stop
    have "trace s' = trace s @ take 1 rebuilt"
      using stop by (simp add: rebuilt_def W_def H_def)
    then show ?thesis
      using stop by (auto simp: W_def H_def)
  next
    case (rebuild e)
    obtain n where n: "n \<le> 3" "trace s' = trace s @ UserResize W H # take n
         [NewSurface Cocoa (windowHandle s) (displayHandle s), GetContext surf, Configure surf cfg]"
      using setupSurfaceAndContext_trace [OF rebuild(3), of Cocoa] rebuild(1)
      by (auto simp: W_def H_def surf_def cfg_def)
    have "n = 0 \<or> n = 1 \<or> n = 2 \<or> n = 3"
      using n(1) by linarith
    then have "trace s' = trace s @ take (Suc n) rebuilt"
      using n(2) by (auto simp: rebuilt_def)
    then show ?thesis
      using rebuild setupSurfaceAndContext_frame [OF rebuild(3)] by auto
  next
    case (draw s3)
    have s3: "surface_var s3 = Some surf" "context_var s3 = Some ctx"
      "trace s3 = trace s @ take 4 rebuilt"
      "windowHandle s3 = windowHandle s" "displayHandle s3 = displayHandle s"
      using setupSurfaceAndContext_returns [OF draw(2), of Cocoa] draw(1)
      by (simp_all add: surf_def ctx_def cfg_def W_def H_def rebuilt_def)
    have "(trace s' = trace s3 @ [UserDraw d ctx] \<and> r \<noteq> None) \<or>
           trace s' = trace s3 @ [UserDraw d ctx, Present surf]"
      using drawFunctionCallback_ready [OF draw(3) s3(1,2)] .
    then have "(trace s' = trace s @ take 5 rebuilt \<and> r \<noteq> None) \<or>
           trace s' = trace s @ take 6 rebuilt"
      by (simp add: s3 rebuilt_def)
    then have p: "\<exists>n. trace s' = trace s @ take n rebuilt"
      and f: "r = None \<longrightarrow> trace s' = trace s @ rebuilt"
      by (blast, auto simp: rebuilt_def)
    show ?thesis
      using p f draw(1) drawFunctionCallback_frame [OF draw(3)] s3(1,2,4,5)
      by simp
  qed
  show ?thesis
    using resize setupFunctionFfiCallback_handles [OF surjective_pairing, of h d wh dh w0 h0 s0]
    by simp
qed

subsection \<open>The order of setup and draw\<close>

lemma setup_seen_append: "setup_seen (t @ u) = (setup_seen t \<or> setup_seen u)"
  by (simp add: setup_seen_def list_ex_iff) blast

lemma draw_follows_setup_True: "draw_follows_setup True t"
  by (induction t) simp_all

lemma draw_follows_setup_append:
  "draw_follows_setup b (t @ u) =
     (draw_follows_setup b t \<and> draw_follows_setup (b \<or> setup_seen t) u)"
  by (induction t arbitrary: b) (auto simp: setup_seen_def draw_follows_setup_True)

lemma draw_follows_setup_no_draw: "\<not> list_ex is_UserDraw t \<Longrightarrow> draw_follows_setup b t"
  by (induction t arbitrary: b) simp_all

text \<open>What the setup callback adds to the trace.\<close>

lemma setupFunctionFfiCallback_unfold:
  assumes "setupSurfaceAndContext h d wh dh (number_of_u32 w) (number_of_u32 hh)
             (s\<lparr>windowHandle := wh, displayHandle := dh\<rparr>) = (r2, s2)"
  shows "setupFunctionFfiCallback h d wh dh w hh s =
     (case r2 of
        Some e \<Rightarrow> (Some e, s2)
      | None \<Rightarrow>
          (case context_var s2 of
             None \<Rightarrow> (None, does (ConsoleError ''Context not initialized.'') s2)
           | Some ctx \<Rightarrow> (setupFunction (this s2) d ctx, does (UserSetup d ctx) s2)))"
  using assms by (simp add: setupFunctionFfiCallback_def Let_def split: option.splits)

lemma setupFunctionFfiCallback_trace:
  assumes "setupFunctionFfiCallback h d wh dh w hh s = (r, s')"
  shows "\<exists>tl. trace s' = trace s @ tl \<and> \<not> list_ex is_UserDraw tl \<and>
           (r = None \<and> system (this s) \<noteq> None \<longrightarrow> setup_seen tl) \<and>
           (system (this s) = None \<longrightarrow> context_var s' = context_var s)"
proof -
  define s1 where "s1 = s\<lparr>windowHandle := wh, displayHandle := dh\<rparr>"
  have s1: "this s1 = this s" "trace s1 = trace s" "context_var s1 = context_var s"
    by (simp_all add: s1_def)
  obtain r2 s2 where c: "setupSurfaceAndContext h d wh dh (number_of_u32 w) (number_of_u32 hh) s1
      = (r2, s2)"
    by (cases "setupSurfaceAndContext h d wh dh (number_of_u32 w) (number_of_u32 hh) s1")
  note u = setupFunctionFfiCallback_unfold [OF c [unfolded s1_def]]
  show ?thesis
  proof (cases "system (this s)")
    case None
    then have "r2 = None" "s2 = does (ConsoleError ''System not supported.'') s1"
      using c setupSurfaceAndContext_no_system [of s1 h d wh dh] by (simp_all add: s1)
    then show ?thesis
      using assms None s1 unfolding u
      by (cases "context_var s") auto
  next
    case (Some sys)
    then have sys: "system (this s1) = Some sys" by (simp add: s1)
    obtain n where n: "trace s2 = trace s @ take n
        [NewSurface sys wh dh,
         GetContext \<lparr>surf_system = sys, surf_window = wh, surf_display = dh\<rparr>,
         Configure \<lparr>surf_system = sys, surf_window = wh, surf_display = dh\<rparr>
           \<lparr>cfg_device = d, cfg_format = presentationFormat (this s),
             cfg_width = number_of_u32 w, cfg_height = number_of_u32 hh\<rparr>]" "n \<le> 3"
      using setupSurfaceAndContext_trace [OF c sys] by (auto simp: s1)
    have "n = 0 \<or> n = 1 \<or> n = 2 \<or> n = 3" using n(2) by linarith
    then have nd: "\<exists>tl. trace s2 = trace s @ tl \<and> \<not> list_ex is_UserDraw tl"
      using n(1) by auto
    show ?thesis
    proof (cases r2)
      case None
      obtain ctx where "context_var s2 = Some ctx"
        using setupSurfaceAndContext_returns [OF c [unfolded None] sys] by simp
      then show ?thesis
        using assms None nd Some unfolding u
        by (auto simp: setup_seen_def)
    next
      case Some': (Some e)
      then show ?thesis
        using assms nd Some unfolding u by auto
    qed
  qed
qed

lemma drawFunctionCallback_trace:
  assumes "drawFunctionCallback h d s = (r, s')"
  shows "\<exists>tl. trace s' = trace s @ tl \<and> (context_var s = None \<longrightarrow> \<not> list_ex is_UserDraw tl)"
  using assms
  by (auto simp: drawFunctionCallback_def Let_def split: option.splits)

lemma resizeFunctionFfiCallback_trace:
  assumes "resizeFunctionFfiCallback h d w hh s = (r, s')"
  shows "\<exists>tl. trace s' = trace s @ tl \<and>
           (system (this s) \<noteq> Some Cocoa \<longrightarrow>
              \<not> list_ex is_UserDraw tl \<and> context_var s' = context_var s) \<and>
           (new_UnsafeWindowSurface h Cocoa (windowHandle s) (displayHandle s) \<noteq> None \<longrightarrow>
              \<not> list_ex is_UserDraw tl \<and> (system (this s) = Some Cocoa \<longrightarrow> r \<noteq> None))"
  using assms
proof (cases rule: resizeFunctionFfiCallback_cases)
  case stop
  then show ?thesis by auto
next
  case (rebuild e)
  obtain n where "trace s' = trace s @ UserResize (number_of_u32 w) (number_of_u32 hh) # take n
        [NewSurface Cocoa (windowHandle s) (displayHandle s),
         GetContext \<lparr>surf_system = Cocoa, surf_window = windowHandle s,
                     surf_display = displayHandle s\<rparr>,
         Configure \<lparr>surf_system = Cocoa, surf_window = windowHandle s,
                     surf_display = displayHandle s\<rparr>
           \<lparr>cfg_device = d, cfg_format = presentationFormat (this s),
             cfg_width = number_of_u32 w, cfg_height = number_of_u32 hh\<rparr>]" "n \<le> 3"
    using setupSurfaceAndContext_trace [OF rebuild(3), of Cocoa] rebuild(1) by auto
  moreover from this have "n = 0 \<or> n = 1 \<or> n = 2 \<or> n = 3" by linarith
  ultimately show ?thesis
    using rebuild(1,2) by auto
next
  case (draw s3)
  have "new_UnsafeWindowSurface h Cocoa (windowHandle s) (displayHandle s) = None"
    using draw(1,2) by (auto simp: setupSurfaceAndContext_def Let_def split: option.splits)
  then show ?thesis
    using draw(1) setupSurfaceAndContext_extends [OF draw(2)]
      drawFunctionCallback_extends [OF draw(3)]
    by auto
qed


text \<open>
  The invariant of the event loop: until the user's setup function has been invoked,
  there is no context (and on cocoa no window handle), and no draw has been made.
\<close>

lemma callback_ordered:
  assumes c: "callback h d ev s = (r, s')"
    and o: "draw_follows_setup False (trace s)"
    and i1: "\<not> setup_seen (trace s) \<longrightarrow> context_var s = None"
    and i2: "\<not> setup_seen (trace s) \<and> system (this s) = Some Cocoa \<longrightarrow> windowHandle s = None"
    and cond: "system (this s) \<noteq> Some Cocoa \<or>
               (\<forall>dh. new_UnsafeWindowSurface h Cocoa None dh \<noteq> None) \<or>
               setup_seen (trace s) \<or> (\<forall>w hh. ev \<noteq> OnResize w hh)"
  shows "draw_follows_setup False (trace s')"
    and "r = None \<Longrightarrow> \<not> setup_seen (trace s') \<Longrightarrow> context_var s' = None"
    and "r = None \<Longrightarrow> \<not> setup_seen (trace s') \<Longrightarrow> system (this s') = Some Cocoa
           \<Longrightarrow> windowHandle s' = None"
    and "system (this s') = system (this s)"
    and "setup_seen (trace s) \<Longrightarrow> setup_seen (trace s')"
    and "ev = OnSetup wh dh w hh \<Longrightarrow> r = None \<Longrightarrow> system (this s) = Some Cocoa
           \<Longrightarrow> setup_seen (trace s')"
proof -
  have "draw_follows_setup False (trace s') \<and>
     (r = None \<longrightarrow> \<not> setup_seen (trace s') \<longrightarrow>
        context_var s' = None \<and> (system (this s') = Some Cocoa \<longrightarrow> windowHandle s' = None)) \<and>
     system (this s') = system (this s) \<and>
     (setup_seen (trace s) \<longrightarrow> setup_seen (trace s')) \<and>
     ((\<exists>wh dh w hh. ev = OnSetup wh dh w hh) \<longrightarrow> r = None \<longrightarrow> system (this s) \<noteq> None
        \<longrightarrow> setup_seen (trace s'))"
  proof (cases ev)
    case (OnSetup wh dh w hh)
    then have e: "setupFunctionFfiCallback h d wh dh w hh s = (r, s')" using c by simp
    obtain tl where tl: "trace s' = trace s @ tl" "\<not> list_ex is_UserDraw tl"
      "r = None \<and> system (this s) \<noteq> None \<longrightarrow> setup_seen tl"
      "system (this s) = None \<longrightarrow> context_var s' = context_var s"
      using setupFunctionFfiCallback_trace [OF e] by (elim exE conjE)
    have p4: "system (this s') = system (this s)"
      using setupFunctionFfiCallback_frame [OF e] by simp
    have p1: "draw_follows_setup False (trace s')"
      using o tl(2) unfolding tl(1)
      by (simp add: draw_follows_setup_append draw_follows_setup_no_draw)
    have sa: "setup_seen (trace s') = (setup_seen (trace s) \<or> setup_seen tl)"
      unfolding tl(1) by (rule setup_seen_append)
    have p2: "context_var s' = None \<and>
              (system (this s') = Some Cocoa \<longrightarrow> windowHandle s' = None)"
      if "r = None" "\<not> setup_seen (trace s')"
    proof -
      have "system (this s) = None" using that tl(3) sa by (cases "system (this s)") auto
      moreover have "context_var s = None" using that(2) i1 sa by simp
      ultimately show ?thesis using tl(4) p4 by simp
    qed
    have p6: "setup_seen (trace s')" if "r = None" "system (this s) \<noteq> None"
      using that tl(3) sa by simp
    show ?thesis
      using p1 p2 p4 p6 sa by (intro conjI impI) (simp_all only: simp_thms)
  next
    case OnDraw
    then have e: "drawFunctionCallback h d s = (r, s')" using c by simp
    obtain tl where tl: "trace s' = trace s @ tl"
      "context_var s = None \<longrightarrow> \<not> list_ex is_UserDraw tl"
      using drawFunctionCallback_trace [OF e] by (elim exE conjE)
    have f: "this s' = this s" "windowHandle s' = windowHandle s"
      "context_var s' = context_var s"
      using drawFunctionCallback_frame [OF e] by simp_all
    have sa: "setup_seen (trace s') = (setup_seen (trace s) \<or> setup_seen tl)"
      unfolding tl(1) by (rule setup_seen_append)
    have p1: "draw_follows_setup False (trace s')"
    proof (cases "setup_seen (trace s)")
      case True
      then show ?thesis using o unfolding tl(1)
        by (simp add: draw_follows_setup_append draw_follows_setup_True)
    next
      case False
      then have "\<not> list_ex is_UserDraw tl" using i1 tl(2) by simp
      then show ?thesis using o unfolding tl(1)
        by (simp add: draw_follows_setup_append draw_follows_setup_no_draw)
    qed
    have p2: "context_var s' = None \<and>
              (system (this s') = Some Cocoa \<longrightarrow> windowHandle s' = None)"
      if "\<not> setup_seen (trace s')"
    proof -
      have n: "\<not> setup_seen (trace s)" using that sa by simp
      show ?thesis using n i1 i2 by (simp add: f)
    qed
    have p4: "system (this s') = system (this s)" by (simp add: f)
    have p6: "\<not> (\<exists>wh dh w hh. ev = OnSetup wh dh w hh)" by (simp add: OnDraw)
    show ?thesis
      using p1 p2 p4 p6 sa by (intro conjI impI) (simp_all only: simp_thms)
  next
    case (OnResize w hh)
    then have e: "resizeFunctionFfiCallback h d w hh s = (r, s')" using c by simp
    obtain tl where tl: "trace s' = trace s @ tl"
      "system (this s) \<noteq> Some Cocoa \<longrightarrow>
         \<not> list_ex is_UserDraw tl \<and> context_var s' = context_var s"
      "new_UnsafeWindowSurface h Cocoa (windowHandle s) (displayHandle s) \<noteq> None \<longrightarrow>
         \<not> list_ex is_UserDraw tl \<and> (system (this s) = Some Cocoa \<longrightarrow> r \<noteq> None)"
      using resizeFunctionFfiCallback_trace [OF e] by (elim exE conjE)
    have p4: "system (this s') = system (this s)"
      using resizeFunctionFfiCallback_frame [OF e] by simp
    have sa: "setup_seen (trace s') = (setup_seen (trace s) \<or> setup_seen tl)"
      unfolding tl(1) by (rule setup_seen_append)
    have p6: "\<not> (\<exists>wh dh w hh. ev = OnSetup wh dh w hh)" by (simp add: OnResize)
    consider (seen) "setup_seen (trace s)"
      | (other) "\<not> setup_seen (trace s)" "system (this s) \<noteq> Some Cocoa"
      | (null) "\<not> setup_seen (trace s)" "system (this s) = Some Cocoa"
          "new_UnsafeWindowSurface h Cocoa (windowHandle s) (displayHandle s) \<noteq> None"
    proof (cases "setup_seen (trace s)")
      case True
      then show ?thesis by (rule seen)
    next
      case ns: False
      show ?thesis
      proof (cases "system (this s) = Some Cocoa")
        case False
        with ns show ?thesis by (rule other)
      next
        case True
        have "windowHandle s = None" using i2 ns True by simp
        moreover have "\<forall>dh. new_UnsafeWindowSurface h Cocoa None dh \<noteq> None"
          using cond ns True OnResize by simp
        ultimately have "new_UnsafeWindowSurface h Cocoa (windowHandle s) (displayHandle s)
            \<noteq> None"
          by simp
        with ns True show ?thesis by (rule null)
      qed
    qed
    then have p12: "draw_follows_setup False (trace s') \<and>
       (r = None \<longrightarrow> \<not> setup_seen (trace s') \<longrightarrow>
        context_var s' = None \<and> (system (this s') = Some Cocoa \<longrightarrow> windowHandle s' = None))"
    proof cases
      case seen
      then show ?thesis using o sa unfolding tl(1)
        by (simp add: draw_follows_setup_append draw_follows_setup_True)
    next
      case other
      then have "\<not> list_ex is_UserDraw tl" "context_var s' = None"
        using tl(2) i1 by simp_all
      then show ?thesis using o other(2) p4 unfolding tl(1)
        by (simp add: draw_follows_setup_append draw_follows_setup_no_draw)
    next
      case null
      then have "\<not> list_ex is_UserDraw tl" "r \<noteq> None"
        using tl(3) by simp_all
      then show ?thesis using o unfolding tl(1)
        by (auto simp: draw_follows_setup_append draw_follows_setup_no_draw)
    qed
    show ?thesis
      using p12 p4 p6 sa by (intro conjI impI) (simp_all only: simp_thms)
  qed
  then show "draw_follows_setup False (trace s')"
    and "r = None \<Longrightarrow> \<not> setup_seen (trace s') \<Longrightarrow> context_var s' = None"
    and "r = None \<Longrightarrow> \<not> setup_seen (trace s') \<Longrightarrow> system (this s') = Some Cocoa
           \<Longrightarrow> windowHandle s' = None"
    and "system (this s') = system (this s)"
    and "setup_seen (trace s) \<Longrightarrow> setup_seen (trace s')"
    and "ev = OnSetup wh dh w hh \<Longrightarrow> r = None \<Longrightarrow> system (this s) = Some Cocoa
           \<Longrightarrow> setup_seen (trace s')"
    by simp_all
qed

lemma event_loop_ordered:
  assumes "draw_follows_setup False (trace s)"
    and "\<not> setup_seen (trace s) \<longrightarrow> context_var s = None"
    and "\<not> setup_seen (trace s) \<and> system (this s) = Some Cocoa \<longrightarrow> windowHandle s = None"
    and "system (this s) \<noteq> Some Cocoa \<or>
         (\<forall>dh. new_UnsafeWindowSurface h Cocoa None dh \<noteq> None) \<or>
         setup_seen (trace s) \<or> \<not> resize_before_setup evs"
  shows "draw_follows_setup False (trace (snd (event_loop h d evs s)))"
  using assms
proof (induction evs arbitrary: s)
  case Nil
  then show ?case by simp
next
  case (Cons ev evs)
  obtain r s' where c: "callback h d ev s = (r, s')" by (cases "callback h d ev s")
  have cond: "system (this s) \<noteq> Some Cocoa \<or>
               (\<forall>dh. new_UnsafeWindowSurface h Cocoa None dh \<noteq> None) \<or>
               setup_seen (trace s) \<or> (\<forall>w hh. ev \<noteq> OnResize w hh)"
    using Cons.prems(4) by auto
  note k = callback_ordered [OF c Cons.prems(1,2,3) cond]
  show ?case
  proof (cases r)
    case (Some e)
    then show ?thesis using c k(1) by simp
  next
    case None
    have "system (this s') \<noteq> Some Cocoa \<or>
         (\<forall>dh. new_UnsafeWindowSurface h Cocoa None dh \<noteq> None) \<or>
         setup_seen (trace s') \<or> \<not> resize_before_setup evs"
    proof (cases ev)
      case (OnSetup wh dh w hh)
      then show ?thesis using k(4) k(6) [OF OnSetup None] by auto
    next
      case OnDraw
      then show ?thesis using Cons.prems(4) k(4,5) by auto
    next
      case (OnResize w hh)
      then show ?thesis using Cons.prems(4) k(4,5) by auto
    qed
    then have "draw_follows_setup False (trace (snd (event_loop h d evs s')))"
      using k(1) k(2,3) [OF None] by (intro Cons.IH) auto
    then show ?thesis using c None by simp
  qed
qed

text \<open>The state in which \<open>spawn()\<close> calls \<open>spawn_window\<close>, when it does.\<close>

lemma event_loop_extends:
  "\<exists>tl. trace (snd (event_loop h d evs s)) = trace s @ tl"
proof (induction evs arbitrary: s)
  case Nil
  then show ?case by simp
next
  case (Cons ev evs)
  obtain r s' where c: "callback h d ev s = (r, s')" by (cases "callback h d ev s")
  have "\<exists>tl. trace s' = trace s @ tl"
  proof (cases ev)
    case (OnSetup wh dh w hh)
    then show ?thesis using c setupFunctionFfiCallback_trace [of h d wh dh w hh s r s'] by auto
  next
    case OnDraw
    then show ?thesis using c drawFunctionCallback_extends [of h d s r s'] by simp
  next
    case (OnResize w hh)
    then show ?thesis using c resizeFunctionFfiCallback_frame [of h d w hh s r s'] by auto
  qed
  then obtain tl where tl: "trace s' = trace s @ tl" ..
  show ?case
  proof (cases r)
    case None
    then show ?thesis using c tl Cons.IH [of s'] by auto
  next
    case (Some e)
    then show ?thesis using c tl by simp
  qed
qed

text \<open>
  \<open>spawn()\<close> either fails before the native call, having made at most the two
  requests, or it runs the event loop from the state in which \<open>spawn_window\<close> has just
  been called.
\<close>

lemma spawn_cases:
  obtains
    (failed) e where "fst (spawn h w) = Some e"
      "trace (snd (spawn h w)) = [] \<or> trace (snd (spawn h w)) = [RequestAdapter] \<or>
       (\<exists>ad. requestAdapter h = Inr (Some ad) \<and>
             trace (snd (spawn h w)) = [RequestAdapter, RequestDevice ad])"
      "dylibPromise w = None \<or> system w = None \<or> requestAdapter h = Inr None \<or>
       (\<exists>e. requestAdapter h = Inl e) \<or>
       (\<exists>ad. requestAdapter h = Inr (Some ad) \<and>
          (requestDevice h ad = Inr None \<or> (\<exists>e. requestDevice h ad = Inl e))) \<or>
       (\<exists>e. dylibPromise w = Some (Rejected e))"
  | (run) sys ad dev lib where "dylibPromise w = Some (Resolved lib)" "system w = Some sys"
      "requestAdapter h = Inr (Some ad)" "requestDevice h ad = Inr (Some dev)"
      "spawn h w =
         event_loop h dev
           (lib (asCString (windowTitle w))
              (case windowIconPath w of None \<Rightarrow> None
               | Some path \<Rightarrow> if truthy_string path then Some (asCString path) else None)
              (width w) (height w))
           ((initial_bridge w)\<lparr>trace :=
              [RequestAdapter, RequestDevice ad,
               SpawnWindow (asCString (windowTitle w))
                 (case windowIconPath w of None \<Rightarrow> None
                  | Some path \<Rightarrow> if truthy_string path then Some (asCString path) else None)
                 (width w) (height w)]\<rparr>)"
proof (cases "dylibPromise w")
  case None
  then show ?thesis by (intro failed) (simp_all add: spawn_def initial_bridge_def)
next
  case p: (Some p)
  show ?thesis
  proof (cases "system w")
    case None
    then show ?thesis using p by (intro failed) (simp_all add: spawn_def initial_bridge_def)
  next
    case sys: (Some sys)
    show ?thesis
    proof (cases "requestAdapter h")
      case (Inl e)
      then show ?thesis using p sys
        by (intro failed) (simp_all add: spawn_def initial_bridge_def does_def)
    next
      case (Inr ao)
      show ?thesis
      proof (cases ao)
        case None
        then show ?thesis using p sys Inr
          by (intro failed) (simp_all add: spawn_def initial_bridge_def does_def)
      next
        case ad: (Some ad)
        show ?thesis
        proof (cases "requestDevice h ad")
          case (Inl e)
          then show ?thesis using p sys Inr ad
            by (intro failed) (simp_all add: spawn_def initial_bridge_def does_def)
        next
          case dv: (Inr dvo)
          show ?thesis
          proof (cases dvo)
            case None
            then show ?thesis using p sys Inr ad dv
              by (intro failed) (simp_all add: spawn_def initial_bridge_def does_def)
          next
            case dev: (Some dev)
            show ?thesis
            proof (cases p)
              case (Rejected e)
              then show ?thesis using p sys Inr ad dv dev
                by (intro failed) (simp_all add: spawn_def initial_bridge_def does_def)
            next
              case (Resolved lib)
              then show ?thesis using p sys Inr ad dv dev
                by (intro run [of lib sys ad dev])
                   (simp_all add: spawn_def initial_bridge_def does_def Let_def)
            qed
          qed
        qed
      qed
    qed
  qed
qed

text \<open>
  Claim C2. In a run of \<open>spawn()\<close>, every invocation of the user's draw function comes
  after an invocation of the user's setup function (which returned, since an exception
  ends the run). This holds on every host whose surface constructor throws on a null
  window handle, as Deno's does: a resize on cocoa before any setup then ends in that
  exception. Whatever the constructor does, it holds when the tag is not \<open>cocoa\<close>, and
  when the library invokes the setup callback before any resize, as the native library
  guarantees. A draw callback that finds the surface or the context null returns without
  an exception, having only logged one message.
\<close>

theorem draw_never_before_setup:
  assumes "system w \<noteq> Some Cocoa \<or>
           (\<forall>dh. new_UnsafeWindowSurface h Cocoa None dh \<noteq> None) \<or>
           (\<forall>lib title icon w_arg h_arg. dylibPromise w = Some (Resolved lib) \<longrightarrow>
              \<not> resize_before_setup (lib title icon w_arg h_arg))"
  shows "draw_follows_setup False (trace (snd (spawn h w))) \<and>
         (surface_var s = None \<or> context_var s = None \<longrightarrow>
            drawFunctionCallback h d s = (None, does (ConsoleError ''Surface not initialized.'') s)
          \<or> drawFunctionCallback h d s = (None, does (ConsoleError ''Context not initialized.'') s))"
proof
  show "draw_follows_setup False (trace (snd (spawn h w)))"
  proof (cases h w rule: spawn_cases)
    case (failed e)
    then show ?thesis by auto
  next
    case (run sys ad dev lib)
    show ?thesis
      unfolding run(5)
      by (rule event_loop_ordered)
         (use assms run(1,2) in \<open>auto simp: initial_bridge_def setup_seen_def\<close>)
  qed
  show "surface_var s = None \<or> context_var s = None \<longrightarrow>
            drawFunctionCallback h d s = (None, does (ConsoleError ''Surface not initialized.'') s)
          \<or> drawFunctionCallback h d s = (None, does (ConsoleError ''Context not initialized.'') s)"
    using drawFunctionCallback_not_ready [of s h d] by blast
qed

subsection \<open>Worked examples of the callbacks\<close>

lemmas example_defs =
  example_host_def example_lib_def example_window_def field_initialisers_def no_options_def
  initial_bridge_def ready_bridge_def example_events_def rejecting_host_def

lemmas callback_defs =
  setupFunctionFfiCallback_def drawFunctionCallback_def resizeFunctionFfiCallback_def
  setupSurfaceAndContext_def does_def number_of_u32_def Let_def

lemma ready_bridge_eq:
  "ready_bridge sys =
     \<lparr> this = example_window sys [],
       surface_var = Some \<lparr>surf_system = sys, surf_window = Some 1, surf_display = Some 2\<rparr>,
       context_var = Some \<lparr>ctx_surface =
           \<lparr>surf_system = sys, surf_window = Some 1, surf_display = Some 2\<rparr>,
         ctx_configured = Some \<lparr>cfg_device = 2, cfg_format = ''bgra8unorm'',
           cfg_width = Finite 800, cfg_height = Finite 600\<rparr>\<rparr>,
       windowHandle = Some 1, displayHandle = Some 2,
       trace =
         [NewSurface sys (Some 1) (Some 2),
          GetContext \<lparr>surf_system = sys, surf_window = Some 1, surf_display = Some 2\<rparr>,
          Configure \<lparr>surf_system = sys, surf_window = Some 1, surf_display = Some 2\<rparr>
            \<lparr>cfg_device = 2, cfg_format = ''bgra8unorm'',
              cfg_width = Finite 800, cfg_height = Finite 600\<rparr>,
          UserSetup 2 \<lparr>ctx_surface =
              \<lparr>surf_system = sys, surf_window = Some 1, surf_display = Some 2\<rparr>,
            ctx_configured = Some \<lparr>cfg_device = 2, cfg_format = ''bgra8unorm'',
              cfg_width = Finite 800, cfg_height = Finite 600\<rparr>\<rparr>] \<rparr>"
  by (simp add: example_defs callback_defs)

text \<open>Claim C1 on cocoa and on win32, after the setup callback has run.\<close>

theorem resize_rebuilds_on_cocoa_only_witness:
  "trace (snd (resizeFunctionFfiCallback (example_host [] []) 2 400 300 (ready_bridge Cocoa))) =
     trace (ready_bridge Cocoa) @
       [UserResize (Finite 400) (Finite 300), NewSurface Cocoa (Some 1) (Some 2),
        GetContext \<lparr>surf_system = Cocoa, surf_window = Some 1, surf_display = Some 2\<rparr>,
        Configure \<lparr>surf_system = Cocoa, surf_window = Some 1, surf_display = Some 2\<rparr>
          \<lparr>cfg_device = 2, cfg_format = ''bgra8unorm'',
            cfg_width = Finite 400, cfg_height = Finite 300\<rparr>,
        UserDraw 2 \<lparr>ctx_surface =
            \<lparr>surf_system = Cocoa, surf_window = Some 1, surf_display = Some 2\<rparr>,
          ctx_configured = Some \<lparr>cfg_device = 2, cfg_format = ''bgra8unorm'',
            cfg_width = Finite 400, cfg_height = Finite 300\<rparr>\<rparr>,
        Present \<lparr>surf_system = Cocoa, surf_window = Some 1, surf_display = Some 2\<rparr>] \<and>
   trace (snd (resizeFunctionFfiCallback (example_host [] []) 2 400 300 (ready_bridge Win32))) =
     trace (ready_bridge Win32) @ [UserResize (Finite 400) (Finite 300)] \<and>
   context_var (snd (resizeFunctionFfiCallback (example_host [] []) 2 400 300 (ready_bridge Win32)))
     = context_var (ready_bridge Win32)"
proof -
  have c: "fst (resizeFunctionFfiCallback (example_host [] []) 2 400 300 (ready_bridge Cocoa))
      = None"
    by (simp add: ready_bridge_eq) (simp add: example_defs callback_defs)
  show ?thesis
    using c
      resize_rebuilds_on_cocoa_only [where h = "example_host [] []" and d = 2 and w = 400
        and hh = 300 and s = "ready_bridge Cocoa", OF surjective_pairing]
      resize_rebuilds_on_cocoa_only [where h = "example_host [] []" and d = 2 and w = 400
        and hh = 300 and s = "ready_bridge Win32", OF surjective_pairing]
    by (simp add: ready_bridge_eq number_of_u32_def) (simp add: example_defs)
qed

text \<open>Claim C8 on the example window.\<close>

theorem dimensions_change_only_on_resize_witness:
  "width (this (snd (event_loop (example_host [] []) 2
      [OnSetup (Some 1) (Some 2) 800 600, OnDraw] (initial_bridge (example_window Cocoa [])))))
     = Finite 512 \<and>
   width (this (snd (resizeFunctionFfiCallback (example_host [] []) 2 400 300
      (ready_bridge Cocoa)))) = Finite 400 \<and>
   height (this (snd (resizeFunctionFfiCallback (example_host [] []) 2 400 300
      (ready_bridge Cocoa)))) = Finite 300"
  using dimensions_change_only_on_resize [where h = "example_host [] []" and d = 2
      and s = "initial_bridge (example_window Cocoa [])"
      and evs = "[OnSetup (Some 1) (Some 2) 800 600, OnDraw]"]
    dimensions_change_only_on_resize [where h = "example_host [] []" and d = 2 and w = 400
      and hh = 300 and s = "ready_bridge Cocoa"]
  by (simp add: number_of_u32_def) (simp add: example_defs)

text \<open>
  Claim C2 on win32 with a resize first, on cocoa with a resize first and a surface
  constructor that rejects null handles, and on cocoa with the setup first.
\<close>

theorem draw_never_before_setup_witness:
  "draw_follows_setup False (trace (snd (spawn (example_host ''windows'' [OnResize 400 300, OnDraw])
      (example_window Win32 [OnResize 400 300, OnDraw])))) \<and>
   draw_follows_setup False (trace (snd (spawn (rejecting_host ''darwin'' [OnResize 400 300, OnDraw])
      (example_window Cocoa [OnResize 400 300, OnDraw])))) \<and>
   draw_follows_setup False (trace (snd (spawn (example_host ''darwin'' example_events)
      (example_window Cocoa example_events)))) \<and>
   drawFunctionCallback (example_host ''darwin'' example_events) 2 (initial_bridge (example_window Cocoa [])) =
     (None, does (ConsoleError ''Surface not initialized.'') (initial_bridge (example_window Cocoa [])))"
proof -
  have 1: "system (example_window Win32 [OnResize 400 300, OnDraw]) \<noteq> Some Cocoa"
    by (simp add: example_defs)
  have 2: "\<forall>dh. new_UnsafeWindowSurface (rejecting_host ''darwin'' [OnResize 400 300, OnDraw])
      Cocoa None dh \<noteq> None"
    by (simp add: example_defs)
  have 3: "\<forall>lib title icon w_arg h_arg.
      dylibPromise (example_window Cocoa example_events) = Some (Resolved lib) \<longrightarrow>
      \<not> resize_before_setup (lib title icon w_arg h_arg)"
    by (auto simp: example_defs)
  have 4: "surface_var (initial_bridge (example_window Cocoa [])) = None"
    by (simp add: example_defs)
  have 5: "drawFunctionCallback (example_host ''darwin'' example_events) 2 (initial_bridge (example_window Cocoa [])) \<noteq>
     (None, does (ConsoleError ''Context not initialized.'') (initial_bridge (example_window Cocoa [])))"
    by (simp add: example_defs callback_defs)
  show ?thesis
    using draw_never_before_setup [OF disjI1, OF 1]
      draw_never_before_setup [OF disjI2, OF disjI1, OF 2]
      draw_never_before_setup [where h = "example_host ''darwin'' example_events"
        and s = "initial_bridge (example_window Cocoa [])" and d = 2,
        OF disjI2, OF disjI2, OF 3] 4 5
    by blast
qed

subsection \<open>Failures inside the callbacks\<close>





text \<open>The user's setup function is reached only through a context that was just built.\<close>


text \<open>The outcome of each callback is the first exception of the calls it makes.\<close>

lemma first_thrown_single [simp]: "first_thrown [x] = x"
  by (cases x) simp_all


lemma first_thrown_append:
  "first_thrown (xs @ ys) = (case first_thrown xs of None \<Rightarrow> first_thrown ys | Some e \<Rightarrow> Some e)"
  by (induction xs rule: first_thrown.induct) simp_all






subsection \<open>What a run of \<open>spawn()\<close> does\<close>

lemma callback_may_do_cong:
  "system t' = system t \<Longrightarrow> presentationFormat t' = presentationFormat t \<Longrightarrow>
   callback_may_do t' a = callback_may_do t a"
  by (cases a) simp_all

lemma setupSurfaceAndContext_may_do:
  assumes "setupSurfaceAndContext h d wh dh W H s = (r, s')"
  shows "\<exists>acts. trace s' = trace s @ acts \<and> list_all (callback_may_do (this s)) acts"
  using assms
  by (auto simp: setupSurfaceAndContext_def Let_def split: option.splits)

lemma drawFunctionCallback_may_do:
  assumes "drawFunctionCallback h d s = (r, s')"
  shows "\<exists>acts. trace s' = trace s @ acts \<and> list_all (callback_may_do (this s)) acts"
  using assms
  by (auto simp: drawFunctionCallback_def Let_def split: option.splits)

lemma setupFunctionFfiCallback_may_do:
  assumes "setupFunctionFfiCallback h d wh dh w hh s = (r, s')"
  shows "\<exists>acts. trace s' = trace s @ acts \<and> list_all (callback_may_do (this s)) acts"
proof -
  obtain r2 s2 where c: "setupSurfaceAndContext h d wh dh (number_of_u32 w) (number_of_u32 hh)
      (s\<lparr>windowHandle := wh, displayHandle := dh\<rparr>) = (r2, s2)"
    by (cases "setupSurfaceAndContext h d wh dh (number_of_u32 w) (number_of_u32 hh)
      (s\<lparr>windowHandle := wh, displayHandle := dh\<rparr>)")
  obtain acts where a: "trace s2 = trace s @ acts" "list_all (callback_may_do (this s)) acts"
    using setupSurfaceAndContext_may_do [OF c] by auto
  show ?thesis
    using assms a unfolding setupFunctionFfiCallback_unfold [OF c]
    by (auto split: option.splits)
qed

lemma resizeFunctionFfiCallback_may_do:
  assumes "resizeFunctionFfiCallback h d w hh s = (r, s')"
  shows "\<exists>acts. trace s' = trace s @ acts \<and> list_all (callback_may_do (this s)) acts"
proof -
  define s2 where "s2 = does (UserResize (number_of_u32 w) (number_of_u32 hh))
    (s\<lparr>this := (this s)\<lparr>width := number_of_u32 w, height := number_of_u32 hh\<rparr>\<rparr>)"
  have s2: "trace s2 = trace s @ [UserResize (number_of_u32 w) (number_of_u32 hh)]"
    "callback_may_do (this s2) = callback_may_do (this s)"
    by (auto simp: s2_def intro!: callback_may_do_cong)
  from assms show ?thesis
  proof (cases rule: resizeFunctionFfiCallback_cases)
    case stop
    then show ?thesis using s2 by (simp add: s2_def)
  next
    case (rebuild e)
    then show ?thesis
      using setupSurfaceAndContext_may_do [OF rebuild(3)] s2 unfolding s2_def [symmetric]
      by auto
  next
    case (draw s3)
    obtain a3 where a3: "trace s3 = trace s2 @ a3" "list_all (callback_may_do (this s2)) a3"
      using setupSurfaceAndContext_may_do [OF draw(2)] unfolding s2_def [symmetric] by auto
    have "this s3 = this s2"
      using setupSurfaceAndContext_frame [OF draw(2)] unfolding s2_def [symmetric] by simp
    then obtain a4 where a4: "trace s' = trace s3 @ a4" "list_all (callback_may_do (this s2)) a4"
      using drawFunctionCallback_may_do [OF draw(3)] by auto
    show ?thesis using a3 a4 s2 by simp
  qed
qed

lemma event_loop_may_do:
  "\<exists>acts. trace (snd (event_loop h d evs s)) = trace s @ acts \<and>
          list_all (callback_may_do (this s)) acts"
proof (induction evs arbitrary: s)
  case Nil
  then show ?case by simp
next
  case (Cons ev evs)
  obtain r s' where c: "callback h d ev s = (r, s')" by (cases "callback h d ev s")
  have "(\<exists>acts. trace s' = trace s @ acts \<and> list_all (callback_may_do (this s)) acts) \<and>
        system (this s') = system (this s) \<and>
        presentationFormat (this s') = presentationFormat (this s)"
  proof (cases ev)
    case (OnSetup wh dh w hh)
    then show ?thesis
      using c setupFunctionFfiCallback_may_do [of h d wh dh w hh s r s']
        setupFunctionFfiCallback_frame [of h d wh dh w hh s r s'] by simp
  next
    case OnDraw
    then show ?thesis
      using c drawFunctionCallback_may_do [of h d s r s']
        drawFunctionCallback_frame [of h d s r s'] by simp
  next
    case (OnResize w hh)
    then show ?thesis
      using c resizeFunctionFfiCallback_may_do [of h d w hh s r s']
        resizeFunctionFfiCallback_frame [of h d w hh s r s'] by simp
  qed
  then obtain acts where a: "trace s' = trace s @ acts"
    "list_all (callback_may_do (this s)) acts"
    "callback_may_do (this s') = callback_may_do (this s)"
    by (auto intro!: callback_may_do_cong)
  show ?case
  proof (cases r)
    case None
    obtain more where "trace (snd (event_loop h d evs s')) = trace s' @ more"
      "list_all (callback_may_do (this s')) more"
      using Cons.IH [of s'] by auto
    then show ?thesis using c a None by simp
  next
    case (Some e)
    then show ?thesis using c a by simp
  qed
qed

text \<open>The trace of a whole \<open>spawn()\<close>.\<close>

lemma spawn_trace:
  obtains
    (guard) "dylibPromise w = None \<or> system w = None" "trace (snd (spawn h w)) = []"
      "fst (spawn h w) \<noteq> None"
  | (adapter) "dylibPromise w \<noteq> None" "system w \<noteq> None"
      "\<forall>ad. requestAdapter h \<noteq> Inr (Some ad)" "trace (snd (spawn h w)) = [RequestAdapter]"
      "fst (spawn h w) \<noteq> None"
      "requestAdapter h = Inr None \<longrightarrow> fst (spawn h w) = Some (Error ''No GPU adapter found.'')"
  | (device) ad where "dylibPromise w \<noteq> None" "system w \<noteq> None"
      "requestAdapter h = Inr (Some ad)"
      "(\<forall>dev. requestDevice h ad \<noteq> Inr (Some dev)) \<or> (\<exists>e. dylibPromise w = Some (Rejected e))"
      "trace (snd (spawn h w)) = [RequestAdapter, RequestDevice ad]"
      "fst (spawn h w) \<noteq> None"
      "requestDevice h ad = Inr None \<longrightarrow> fst (spawn h w) = Some (Error ''No GPU device found.'')"
  | (run) ad dev lib acts where "dylibPromise w = Some (Resolved lib)" "system w \<noteq> None"
      "requestAdapter h = Inr (Some ad)" "requestDevice h ad = Inr (Some dev)"
      "trace (snd (spawn h w)) =
         [RequestAdapter, RequestDevice ad,
          SpawnWindow (asCString (windowTitle w))
            (case windowIconPath w of None \<Rightarrow> None
             | Some path \<Rightarrow> if truthy_string path then Some (asCString path) else None)
            (width w) (height w)] @ acts"
      "list_all (callback_may_do w) acts"
proof (cases "dylibPromise w")
  case None
  then show ?thesis by (intro guard) (simp_all add: spawn_def initial_bridge_def)
next
  case p: (Some p)
  show ?thesis
  proof (cases "system w")
    case None
    then show ?thesis using p by (intro guard) (simp_all add: spawn_def initial_bridge_def)
  next
    case sys: (Some sys)
    show ?thesis
    proof (cases "requestAdapter h")
      case (Inl e)
      then show ?thesis using p sys
        by (intro adapter) (simp_all add: spawn_def initial_bridge_def does_def)
    next
      case (Inr ao)
      show ?thesis
      proof (cases ao)
        case None
        then show ?thesis using p sys Inr
          by (intro adapter) (simp_all add: spawn_def initial_bridge_def does_def)
      next
        case ad: (Some ad)
        show ?thesis
        proof (cases "requestDevice h ad")
          case (Inl e)
          then show ?thesis using p sys Inr ad
            by (intro device [of ad]) (simp_all add: spawn_def initial_bridge_def does_def)
        next
          case dv: (Inr dvo)
          show ?thesis
          proof (cases dvo)
            case None
            then show ?thesis using p sys Inr ad dv
              by (intro device [of ad]) (simp_all add: spawn_def initial_bridge_def does_def)
          next
            case dev: (Some dev)
            show ?thesis
            proof (cases p)
              case (Rejected e)
              then show ?thesis using p sys Inr ad dv dev
                by (intro device [of ad]) (simp_all add: spawn_def initial_bridge_def does_def)
            next
              case (Resolved lib)
              let ?icon = "case windowIconPath w of None \<Rightarrow> None
                | Some path \<Rightarrow> if truthy_string path then Some (asCString path) else None"
              let ?s3 = "(initial_bridge w)\<lparr>trace :=
                [RequestAdapter, RequestDevice ad,
                 SpawnWindow (asCString (windowTitle w)) ?icon (width w) (height w)]\<rparr>"
              have e: "spawn h w = event_loop h dev
                  (lib (asCString (windowTitle w)) ?icon (width w) (height w)) ?s3"
                using Resolved p sys Inr ad dv dev
                by (simp add: spawn_def initial_bridge_def does_def Let_def)
              obtain acts where "trace (snd (spawn h w)) = trace ?s3 @ acts"
                "list_all (callback_may_do (this ?s3)) acts"
                unfolding e using event_loop_may_do [of h dev _ ?s3] by blast
              then show ?thesis using Resolved p sys Inr ad dv dev
                by (intro run [of lib ad dev acts]) (simp_all add: initial_bridge_def)
            qed
          qed
        qed
      qed
    qed
  qed
qed

lemma not_SpawnWindow: "callback_may_do t a \<Longrightarrow> a \<noteq> SpawnWindow title icon w_arg h_arg"
  by (cases a) simp_all

text \<open>
  Claim C5. \<open>spawn()\<close> on a window with a library and a tag: without an adapter it
  rejects with \<open>No GPU adapter found.\<close>, having only requested the adapter; without a
  device it rejects with \<open>No GPU device found.\<close>, having only requested the adapter and
  the device. Whenever the adapter or the device is not obtained, also when the request
  itself throws, \<open>spawn()\<close> rejects and \<open>spawn_window\<close> is never called. Whenever
  \<open>spawn_window\<close> is called, both requests have succeeded and precede it in the trace.
\<close>

theorem gpu_acquired_before_native_call:
  "(dylibPromise w \<noteq> None \<and> system w \<noteq> None \<and> requestAdapter h = Inr None \<longrightarrow>
      fst (spawn h w) = Some (Error ''No GPU adapter found.'') \<and>
      trace (snd (spawn h w)) = [RequestAdapter]) \<and>
   (dylibPromise w \<noteq> None \<and> system w \<noteq> None \<and> requestAdapter h = Inr (Some ad) \<and>
    requestDevice h ad = Inr None \<longrightarrow>
      fst (spawn h w) = Some (Error ''No GPU device found.'') \<and>
      trace (snd (spawn h w)) = [RequestAdapter, RequestDevice ad]) \<and>
   ((\<forall>ad. requestAdapter h \<noteq> Inr (Some ad)) \<or>
    (\<exists>ad. requestAdapter h = Inr (Some ad) \<and> (\<forall>dev. requestDevice h ad \<noteq> Inr (Some dev))) \<longrightarrow>
      fst (spawn h w) \<noteq> None \<and>
      (\<forall>title icon w_arg h_arg.
         SpawnWindow title icon w_arg h_arg \<notin> set (trace (snd (spawn h w))))) \<and>
   (\<forall>title icon w_arg h_arg.
      SpawnWindow title icon w_arg h_arg \<in> set (trace (snd (spawn h w))) \<longrightarrow>
        (\<exists>ad dev acts. requestAdapter h = Inr (Some ad) \<and> requestDevice h ad = Inr (Some dev) \<and>
           trace (snd (spawn h w)) =
             [RequestAdapter, RequestDevice ad, SpawnWindow title icon w_arg h_arg] @ acts))"
proof (cases h w rule: spawn_trace)
  case guard
  then show ?thesis by auto
next
  case adapter
  then show ?thesis by auto
next
  case (device ad')
  then show ?thesis by auto
next
  case (run ad' dev lib acts)
  have "a \<noteq> SpawnWindow title icon w_arg h_arg" if "a \<in> set acts" for a title icon w_arg h_arg
    using that run(6) not_SpawnWindow [of w a] by (auto simp: list_all_iff)
  then have "SpawnWindow title icon w_arg h_arg \<notin> set acts" for title icon w_arg h_arg
    by blast
  then show ?thesis using run(1-5) by auto
qed

text \<open>
  Claim C5 without an adapter, without a device, and with both.
\<close>

theorem gpu_acquired_before_native_call_witness:
  "fst (spawn no_adapter_host (example_window Wayland example_events)) =
     Some (Error ''No GPU adapter found.'') \<and>
   trace (snd (spawn no_adapter_host (example_window Wayland example_events))) =
     [RequestAdapter] \<and>
   fst (spawn no_device_host (example_window Wayland example_events)) =
     Some (Error ''No GPU device found.'') \<and>
   trace (snd (spawn no_device_host (example_window Wayland example_events))) =
     [RequestAdapter, RequestDevice 1] \<and>
   take 3 (trace (snd (spawn (example_host ''linux'' example_events)
                         (example_window Wayland example_events)))) =
     [RequestAdapter, RequestDevice 1,
      SpawnWindow (asCString (js ''Deno + winit'')) None (Finite 512) (Finite 512)]"
proof -
  let ?w = "example_window Wayland example_events"
  have g: "dylibPromise ?w \<noteq> None \<and> system ?w \<noteq> None"
    by (simp add: example_window_def)
  have a: "requestAdapter no_adapter_host = Inr None"
    by (simp add: no_adapter_host_def example_host_def)
  have b: "requestAdapter no_device_host = Inr (Some 1) \<and>
           requestDevice no_device_host 1 = Inr None"
    by (simp add: no_device_host_def example_host_def)
  have c: "SpawnWindow (asCString (js ''Deno + winit'')) None (Finite 512) (Finite 512)
      \<in> set (trace (snd (spawn (example_host ''linux'' example_events) ?w)))"
    by (simp add: spawn_def example_defs callback_defs)
  have 1: "fst (spawn no_adapter_host ?w) = Some (Error ''No GPU adapter found.'') \<and>
      trace (snd (spawn no_adapter_host ?w)) = [RequestAdapter]"
    using gpu_acquired_before_native_call [of ?w no_adapter_host] g a by blast
  have 2: "fst (spawn no_device_host ?w) = Some (Error ''No GPU device found.'') \<and>
      trace (snd (spawn no_device_host ?w)) = [RequestAdapter, RequestDevice 1]"
    using gpu_acquired_before_native_call [of ?w no_device_host 1] g b by blast
  obtain ad dev acts where r:
    "requestAdapter (example_host ''linux'' example_events) = Inr (Some ad)"
    "trace (snd (spawn (example_host ''linux'' example_events) ?w)) =
       [RequestAdapter, RequestDevice ad,
        SpawnWindow (asCString (js ''Deno + winit'')) None (Finite 512) (Finite 512)] @ acts"
    using gpu_acquired_before_native_call [of ?w "example_host ''linux'' example_events"] c
    by blast
  have "ad = 1" using r(1) by (simp add: example_host_def)
  then have 3: "take 3 (trace (snd (spawn (example_host ''linux'' example_events) ?w))) =
     [RequestAdapter, RequestDevice 1,
      SpawnWindow (asCString (js ''Deno + winit'')) None (Finite 512) (Finite 512)]"
    using r(2) by simp
  show ?thesis using 1 2 3 by blast
qed

text \<open>
  Claim C7. The window constructed from no options has width \<open>512\<close>, height \<open>512\<close> and
  format \<open>bgra8unorm\<close>. Every call of \<open>spawn_window\<close> that \<open>spawn()\<close> makes on it passes
  the title \<open>Deno + winit\<close> marshalled, no icon, and \<open>512\<close> and \<open>512\<close>; every
  \<open>configure\<close> made during the run passes the format \<open>bgra8unorm\<close>; and when the adapter,
  the device and the library are there, the call of \<open>spawn_window\<close> is made.
\<close>

theorem defaults_reach_native_call:
  assumes "constructor h no_options = Inr t"
  shows "width t = Finite 512 \<and> height t = Finite 512 \<and>
         presentationFormat t = ''bgra8unorm'' \<and>
         (\<forall>title icon w_arg h_arg.
            SpawnWindow title icon w_arg h_arg \<in> set (trace (snd (spawn h' t))) \<longrightarrow>
              title = asCString (js ''Deno + winit'') \<and> icon = None \<and>
              w_arg = Finite 512 \<and> h_arg = Finite 512) \<and>
         (\<forall>surf cfg. Configure surf cfg \<in> set (trace (snd (spawn h' t))) \<longrightarrow>
            cfg_format cfg = ''bgra8unorm'') \<and>
         (\<forall>ad dev lib. requestAdapter h' = Inr (Some ad) \<and> requestDevice h' ad = Inr (Some dev) \<and>
            dylibPromise t = Some (Resolved lib) \<longrightarrow>
            take 3 (trace (snd (spawn h' t))) =
              [RequestAdapter, RequestDevice ad,
               SpawnWindow (asCString (js ''Deno + winit'')) None (Finite 512) (Finite 512)])"
proof -
  obtain sys p where t: "t = (assign_options no_options field_initialisers)
      \<lparr>system := Some sys, dylibPromise := Some p\<rparr>"
    using assms by (rule constructor_Inr)
  have a: "assign_options no_options field_initialisers = field_initialisers"
    by (simp add: assign_options_def no_options_def assign_if_None)
  have f: "width t = Finite 512" "height t = Finite 512" "presentationFormat t = ''bgra8unorm''"
    "windowTitle t = js ''Deno + winit''" "windowIconPath t = None"
    unfolding t a by (simp_all add: field_initialisers_def)
  show ?thesis
  proof (cases h' t rule: spawn_trace)
    case guard
    then show ?thesis using f by (simp add: t)
  next
    case adapter
    then show ?thesis using f by auto
  next
    case (device ad)
    then show ?thesis using f by auto
  next
    case (run ad dev lib acts)
    have "a \<noteq> SpawnWindow title icon w_arg h_arg" if "a \<in> set acts"
      for a title icon w_arg h_arg
      using that run(6) not_SpawnWindow [of t a] by (auto simp: list_all_iff)
    then have n: "SpawnWindow title icon w_arg h_arg \<notin> set acts" for title icon w_arg h_arg
      by blast
    have c: "cfg_format cfg = ''bgra8unorm''" if "Configure surf cfg \<in> set acts" for surf cfg
      using that run(6) f(3) by (auto simp: list_all_iff)
    have tr: "trace (snd (spawn h' t)) =
         [RequestAdapter, RequestDevice ad,
          SpawnWindow (asCString (js ''Deno + winit'')) None (Finite 512) (Finite 512)] @ acts"
      using run(5) f by simp
    have 1: "\<forall>title icon w_arg h_arg.
            SpawnWindow title icon w_arg h_arg \<in> set (trace (snd (spawn h' t))) \<longrightarrow>
              title = asCString (js ''Deno + winit'') \<and> icon = None \<and>
              w_arg = Finite 512 \<and> h_arg = Finite 512"
      unfolding tr using n by auto
    have 2: "\<forall>surf cfg. Configure surf cfg \<in> set (trace (snd (spawn h' t))) \<longrightarrow>
            cfg_format cfg = ''bgra8unorm''"
      unfolding tr using c by auto
    have 3: "take 3 (trace (snd (spawn h' t))) =
              [RequestAdapter, RequestDevice ad,
               SpawnWindow (asCString (js ''Deno + winit'')) None (Finite 512) (Finite 512)]"
      unfolding tr by simp
    show ?thesis using f(1,2,3) 1 2 3 run(3) by auto
  qed
qed

text \<open>
  Claim C7 on linux.
\<close>

theorem defaults_reach_native_call_witness:
  "width (example_window Wayland example_events) = Finite 512 \<and>
   height (example_window Wayland example_events) = Finite 512 \<and>
   presentationFormat (example_window Wayland example_events) = ''bgra8unorm'' \<and>
   take 3 (trace (snd (spawn (example_host ''linux'' example_events)
                         (example_window Wayland example_events)))) =
     [RequestAdapter, RequestDevice 1,
      SpawnWindow (asCString (js ''Deno + winit'')) None (Finite 512) (Finite 512)] \<and>
   Configure \<lparr>surf_system = Wayland, surf_window = Some 1, surf_display = Some 2\<rparr>
     \<lparr>cfg_device = 2, cfg_format = ''bgra8unorm'', cfg_width = Finite 800,
       cfg_height = Finite 600\<rparr>
     \<in> set (trace (snd (spawn (example_host ''linux'' example_events)
                           (example_window Wayland example_events))))"
proof -
  have c: "Configure \<lparr>surf_system = Wayland, surf_window = Some 1, surf_display = Some 2\<rparr>
     \<lparr>cfg_device = 2, cfg_format = ''bgra8unorm'', cfg_width = Finite 800,
       cfg_height = Finite 600\<rparr>
     \<in> set (trace (snd (spawn (example_host ''linux'' example_events)
                           (example_window Wayland example_events))))"
    by (simp add: spawn_def example_defs callback_defs)
  have h: "requestAdapter (example_host ''linux'' example_events) = Inr (Some 1)"
    "requestDevice (example_host ''linux'' example_events) 1 = Inr (Some 2)"
    "dylibPromise (example_window Wayland example_events)
       = Some (Resolved (example_lib example_events))"
    by (simp_all add: example_host_def example_window_def)
  show ?thesis
    using c h defaults_reach_native_call [OF constructor_example(1) [of example_events],
        of "example_host ''linux'' example_events"]
    by blast
qed

text \<open>
  Claim C10. A window that the constructor returned has a tag and a library promise.
  So \<open>spawn()\<close> on it, on any host, passes its two guards and requests the adapter, and
  no callback of the run takes the branch that logs \<open>System not supported.\<close>
\<close>

theorem constructed_window_is_spawnable:
  assumes "constructor h a = Inr t"
  shows "system t \<noteq> None \<and> dylibPromise t \<noteq> None \<and>
         (\<exists>acts. trace (snd (spawn h' t)) = RequestAdapter # acts) \<and>
         ConsoleError ''System not supported.'' \<notin> set (trace (snd (spawn h' t)))"
proof -
  obtain sys p where t: "t = (assign_options a field_initialisers)
      \<lparr>system := Some sys, dylibPromise := Some p\<rparr>"
    using assms by (rule constructor_Inr)
  have g: "system t \<noteq> None" "dylibPromise t \<noteq> None"
    by (simp_all add: t)
  show ?thesis
  proof (cases h' t rule: spawn_trace)
    case guard
    then show ?thesis using g by simp
  next
    case adapter
    then show ?thesis using g by simp
  next
    case (device ad)
    then show ?thesis using g by simp
  next
    case (run ad dev lib acts)
    have "x \<noteq> ConsoleError ''System not supported.''" if "x \<in> set acts" for x
    proof
      assume "x = ConsoleError ''System not supported.''"
      moreover have "callback_may_do t x" using that run(6) by (simp add: list_all_iff)
      ultimately show False using g(1) by simp
    qed
    then have "ConsoleError ''System not supported.'' \<notin> set acts" by blast
    then show ?thesis using g run(5) by simp
  qed
qed

text \<open>
  Claim C10 on darwin.
\<close>

theorem constructed_window_is_spawnable_witness:
  "system (example_window Cocoa example_events) \<noteq> None \<and>
   dylibPromise (example_window Cocoa example_events) \<noteq> None \<and>
   (\<exists>acts. trace (snd (spawn (example_host ''darwin'' example_events)
                         (example_window Cocoa example_events))) = RequestAdapter # acts) \<and>
   ConsoleError ''System not supported.'' \<notin>
     set (trace (snd (spawn (example_host ''darwin'' example_events)
                         (example_window Cocoa example_events))))"
  using constructed_window_is_spawnable [OF constructor_example(4) [of example_events],
      of "example_host ''darwin'' example_events"]
  by simp


end
